theory Spec2Isabelle
  imports Main
begin

text \<open>
  A shallow embedding of the data-access layer of the admin console: the identifier
  quoting and the query builder of the data provider, the remote query executor with its
  normalisation of response bodies, the table lifecycle operations, the CSV codec and the
  import handler. Pure string builders are HOL functions on strings; an operation that
  talks to the remote store takes the remote end as a parameter and threads the list of
  requests sent so far, so that both its result and the requests it sends can be stated.
\<close>

section \<open>Strings\<close>

text \<open>
  A JavaScript string is modelled by its UTF-8 encoding, a HOL string (a list of 8-bit
  characters): an ASCII character is one element, every other character a sequence of
  two to four elements, none of which is an ASCII character. The code below compares
  characters with ASCII characters only (the double quote, the comma, the line feed) and
  copies the others, so that what it does on UTF-16 code units it does on this encoding.
  White space and the case of letters are the two places where characters outside ASCII
  matter; they are treated below.
\<close>

text \<open>\<^verbatim>\<open>Array.prototype.join\<close>: the elements separated by \<open>sep\<close>; the empty array gives
  the empty string.\<close>

fun join :: "string \<Rightarrow> string list \<Rightarrow> string" where
  "join sep [] = []"
| "join sep [x] = x"
| "join sep (x # y # ys) = x @ sep @ join sep (y # ys)"

text \<open>\<^verbatim>\<open>String.prototype.includes\<close>: \<open>sub\<close> occurs in \<open>s\<close> as a contiguous run.\<close>

definition startsWith :: "string \<Rightarrow> string \<Rightarrow> bool" where
  "startsWith s sub = (take (length sub) s = sub)"

fun includesStr :: "string \<Rightarrow> string \<Rightarrow> bool" where
  "includesStr [] sub = (sub = [])"
| "includesStr (c # cs) sub = (startsWith (c # cs) sub \<or> includesStr cs sub)"

text \<open>
  \<^verbatim>\<open>toUpperCase\<close> and \<^verbatim>\<open>toLowerCase\<close>. The ASCII letters are mapped one by one. Outside
  ASCII, the characters whose upper-case (lower-case) form contains an ASCII letter are
  mapped as the runtime maps them; they are listed with their UTF-8 encodings in
  \<open>upper_special\<close> and \<open>lower_special\<close>. Every other character outside ASCII is left as it
  is: the runtime may put another character outside ASCII in its place, which none of the
  tests the code makes on the result (\<^verbatim>\<open>includes\<close> of an ASCII word, equality with \<^verbatim>\<open>'id'\<close>)
  can tell from the original. The counter \<open>k\<close> of \<open>case_map\<close> and of \<open>strip\<close> is the number
  of elements still to skip, those of a sequence already replaced.
\<close>

definition toUpperChar :: "char \<Rightarrow> char" where
  "toUpperChar c =
     (let n = of_char c :: nat in if 97 \<le> n \<and> n \<le> 122 then char_of (n - 32) else c)"


definition upper_special :: "(string \<times> string) list" where
  "upper_special =
     [([CHR 0xC3, CHR 0x9F], ''SS''),
      ([CHR 0xC4, CHR 0xB1], ''I''),
      ([CHR 0xC5, CHR 0x89], [CHR 0xCA, CHR 0xBC, CHR ''N'']),
      ([CHR 0xC5, CHR 0xBF], ''S''),
      ([CHR 0xC7, CHR 0xB0], [CHR ''J'', CHR 0xCC, CHR 0x8C]),
      ([CHR 0xE1, CHR 0xBA, CHR 0x96], [CHR ''H'', CHR 0xCC, CHR 0xB1]),
      ([CHR 0xE1, CHR 0xBA, CHR 0x97], [CHR ''T'', CHR 0xCC, CHR 0x88]),
      ([CHR 0xE1, CHR 0xBA, CHR 0x98], [CHR ''W'', CHR 0xCC, CHR 0x8A]),
      ([CHR 0xE1, CHR 0xBA, CHR 0x99], [CHR ''Y'', CHR 0xCC, CHR 0x8A]),
      ([CHR 0xE1, CHR 0xBA, CHR 0x9A], [CHR ''A'', CHR 0xCA, CHR 0xBE]),
      ([CHR 0xEF, CHR 0xAC, CHR 0x80], ''FF''),
      ([CHR 0xEF, CHR 0xAC, CHR 0x81], ''FI''),
      ([CHR 0xEF, CHR 0xAC, CHR 0x82], ''FL''),
      ([CHR 0xEF, CHR 0xAC, CHR 0x83], ''FFI''),
      ([CHR 0xEF, CHR 0xAC, CHR 0x84], ''FFL''),
      ([CHR 0xEF, CHR 0xAC, CHR 0x85], ''ST''),
      ([CHR 0xEF, CHR 0xAC, CHR 0x86], ''ST'')]"


fun case_map :: "(char \<Rightarrow> char) \<Rightarrow> (string \<times> string) list \<Rightarrow> nat \<Rightarrow> string \<Rightarrow> string" where
  "case_map f special k [] = []"
| "case_map f special (Suc k) (c # cs) = case_map f special k cs"
| "case_map f special 0 (c # cs) =
     (case find (\<lambda>(enc, out). startsWith (c # cs) enc) special of
        Some (enc, out) \<Rightarrow> out @ case_map f special (length enc - 1) cs
      | None \<Rightarrow> f c # case_map f special 0 cs)"

definition toUpperCase :: "string \<Rightarrow> string" where
  "toUpperCase s = case_map toUpperChar upper_special 0 s"


text \<open>
  \<^verbatim>\<open>trim\<close>: white space and line terminators are removed at both ends. \<open>white_space\<close>
  lists their encodings: tab, line feed, vertical tab, form feed, carriage return, space,
  U+00A0, U+1680, U+2000 to U+200A, U+2028, U+2029, U+202F, U+205F, U+3000 and U+FEFF.
\<close>

definition white_space :: "string list" where
  "white_space =
     [[CHR 0x09], [CHR 0x0A], [CHR 0x0B], [CHR 0x0C], [CHR 0x0D], [CHR 0x20],
      [CHR 0xC2, CHR 0xA0], [CHR 0xE1, CHR 0x9A, CHR 0x80],
      [CHR 0xE2, CHR 0x80, CHR 0x80], [CHR 0xE2, CHR 0x80, CHR 0x81],
      [CHR 0xE2, CHR 0x80, CHR 0x82], [CHR 0xE2, CHR 0x80, CHR 0x83],
      [CHR 0xE2, CHR 0x80, CHR 0x84], [CHR 0xE2, CHR 0x80, CHR 0x85],
      [CHR 0xE2, CHR 0x80, CHR 0x86], [CHR 0xE2, CHR 0x80, CHR 0x87],
      [CHR 0xE2, CHR 0x80, CHR 0x88], [CHR 0xE2, CHR 0x80, CHR 0x89],
      [CHR 0xE2, CHR 0x80, CHR 0x8A], [CHR 0xE2, CHR 0x80, CHR 0xA8],
      [CHR 0xE2, CHR 0x80, CHR 0xA9], [CHR 0xE2, CHR 0x80, CHR 0xAF],
      [CHR 0xE2, CHR 0x81, CHR 0x9F], [CHR 0xE3, CHR 0x80, CHR 0x80],
      [CHR 0xEF, CHR 0xBB, CHR 0xBF]]"

fun strip :: "string list \<Rightarrow> nat \<Rightarrow> string \<Rightarrow> string" where
  "strip ws k [] = []"
| "strip ws (Suc k) (c # cs) = strip ws k cs"
| "strip ws 0 (c # cs) =
     (case find (\<lambda>w. startsWith (c # cs) w) ws of
        Some w \<Rightarrow> strip ws (length w - 1) cs
      | None \<Rightarrow> c # cs)"

definition trim :: "string \<Rightarrow> string" where
  "trim s = rev (strip (map rev white_space) 0 (rev (strip white_space 0 s)))"

text \<open>The decimal digits of an integer, with a minus sign below zero: the text form of
  an integer of small magnitude.\<close>

definition digit :: "nat \<Rightarrow> char" where
  "digit d = char_of (48 + d)"

fun dec_nat :: "nat \<Rightarrow> string" where
  "dec_nat n = (if n < 10 then [digit n] else dec_nat (n div 10) @ [digit (n mod 10)])"

declare dec_nat.simps [simp del]

definition dec_int :: "int \<Rightarrow> string" where
  "dec_int i = (if i < 0 then ''-'' @ dec_nat (nat (- i)) else dec_nat (nat i))"

text \<open>\<^verbatim>\<open>name.replace(/"/g, '""')\<close>: every double quote is replaced by two.\<close>

definition replace_dq :: "string \<Rightarrow> string" where
  \<open>replace_dq name = concat (map (\<lambda>c. if c = CHR ''"'' then [CHR ''"'', CHR ''"''] else [c]) name)\<close>

text \<open>\<^verbatim>\<open>const quote = (name: string) => `"${name.replace(/"/g, '""')}"`;\<close>\<close>

definition quote :: "string \<Rightarrow> string" where
  \<open>quote name = [CHR ''"''] @ replace_dq name @ [CHR ''"'']\<close>

subsection \<open>The inverse reading of a quoted identifier\<close>

text \<open>
  The specification's reading of a quoted identifier: strip the one outer pair of double
  quotes, then un-double the quotes inside. \<open>strip_outer_quotes\<close> fails on a text that is
  not wrapped; \<open>undouble\<close> fails on a double quote that has no partner.
\<close>

definition strip_outer_quotes :: "string \<Rightarrow> string option" where
  \<open>strip_outer_quotes t =
     (if 2 \<le> length t \<and> hd t = CHR ''"'' \<and> last t = CHR ''"''
      then Some (butlast (tl t)) else None)\<close>

fun undouble :: "string \<Rightarrow> string option" where
  \<open>undouble [] = Some []\<close>
| \<open>undouble [c] = (if c = CHR ''"'' then None else Some [c])\<close>
| \<open>undouble (c # d # cs) =
     (if c = CHR ''"''
      then (if d = CHR ''"'' then map_option ((#) c) (undouble cs) else None)
      else map_option ((#) c) (undouble (d # cs)))\<close>

definition unquote :: "string \<Rightarrow> string option" where
  \<open>unquote t = (case strip_outer_quotes t of None \<Rightarrow> None | Some body \<Rightarrow> undouble body)\<close>

section \<open>JavaScript values\<close>

text \<open>
  The values that travel between the console and the remote store: what \<^verbatim>\<open>JSON.parse\<close>
  yields, \<open>Undefined\<close> for a property that is absent, and \<open>Native k\<close> for the member \<open>k\<close>
  that every object inherits from its prototype (a built-in function; for \<^verbatim>\<open>__proto__\<close> the
  prototype itself). A number is given by its text form, the text that \<^verbatim>\<open>String\<close> yields
  for it: \<open>Num ''3''\<close>, \<open>Num ''-7''\<close>, \<open>Num ''2.5''\<close>, \<open>Num ''1e+21''\<close>, \<open>Num ''NaN''\<close>; both
  zeros have the text \<open>''0''\<close>. An object is given by its own properties, each key once;
  properties are read by key, and the order of the list matters only where the code
  enumerates the keys (the variables of \<^verbatim>\<open>create\<close> and \<^verbatim>\<open>update\<close>).
\<close>

datatype jsval =
  Undefined | Null | Bool bool | Num string | Str string
  | Arr "jsval list" | Obj "(string \<times> jsval) list" | Native string

text \<open>The names that every object inherits.\<close>

definition object_prototype :: "string list" where
  "object_prototype =
     [''constructor'', ''__defineGetter__'', ''__defineSetter__'', ''hasOwnProperty'',
      ''__lookupGetter__'', ''__lookupSetter__'', ''isPrototypeOf'', ''propertyIsEnumerable'',
      ''toString'', ''valueOf'', ''__proto__'', ''toLocaleString'']"

text \<open>
  Property access \<^verbatim>\<open>v.k\<close> and \<^verbatim>\<open>v[k]\<close> on a value that is not null. On an object: the own
  property, else the inherited member, else \<open>Undefined\<close>. On a string, a number, a boolean
  or an array the code reads only the keys \<^verbatim>\<open>name\<close>, \<^verbatim>\<open>type\<close>, \<^verbatim>\<open>total\<close>, \<^verbatim>\<open>count\<close>, \<^verbatim>\<open>COUNT(*)\<close>
  and \<^verbatim>\<open>rows_inserted\<close>, which they do not have.
\<close>

fun getProp :: "jsval \<Rightarrow> string \<Rightarrow> jsval" where
  "getProp (Obj kvs) k =
     (case map_of kvs k of
        Some v \<Rightarrow> v
      | None \<Rightarrow> if k \<in> set object_prototype then Native k else Undefined)"
| "getProp _ k = Undefined"

text \<open>Optional chaining \<^verbatim>\<open>v?.k\<close>: \<open>Undefined\<close> when \<open>v\<close> is null or undefined.\<close>

definition opt_prop :: "jsval \<Rightarrow> string \<Rightarrow> jsval" where
  "opt_prop v k = (case v of Undefined \<Rightarrow> Undefined | Null \<Rightarrow> Undefined | _ \<Rightarrow> getProp v k)"

text \<open>Array access \<^verbatim>\<open>xs[0]\<close>: \<open>Undefined\<close> on the empty array.\<close>

definition first :: "jsval list \<Rightarrow> jsval" where
  "first xs = (case xs of [] \<Rightarrow> Undefined | x # _ \<Rightarrow> x)"

text \<open>Truthiness, and \<^verbatim>\<open>a || b\<close>. The falsy numbers are the zeros and NaN.\<close>

fun truthy :: "jsval \<Rightarrow> bool" where
  "truthy Undefined = False"
| "truthy Null = False"
| "truthy (Bool b) = b"
| "truthy (Num n) = (n \<noteq> ''0'' \<and> n \<noteq> ''NaN'')"
| "truthy (Str s) = (s \<noteq> [])"
| "truthy (Arr xs) = True"
| "truthy (Obj kvs) = True"
| "truthy (Native k) = True"

definition js_or :: "jsval \<Rightarrow> jsval \<Rightarrow> jsval" where
  "js_or a b = (if truthy a then a else b)"

fun isArray :: "jsval \<Rightarrow> bool" where
  "isArray (Arr xs) = True"
| "isArray _ = False"

text \<open>
  What the language leaves to the runtime: the arithmetic of numbers (here on their text
  forms) and the text that \<^verbatim>\<open>String\<close> yields for a built-in function. The code is modelled
  for every runtime; \<open>rt\<close> is the parameter.
\<close>

record runtime =
  num_minus :: "string \<Rightarrow> string \<Rightarrow> string"
  num_times :: "string \<Rightarrow> string \<Rightarrow> string"
  native_text :: "string \<Rightarrow> string"

text \<open>A value in a template literal, \<^verbatim>\<open>`${v}`\<close>, and \<^verbatim>\<open>String(v)\<close>.\<close>

fun js_String :: "runtime \<Rightarrow> jsval \<Rightarrow> string" where
  "js_String rt Undefined = ''undefined''"
| "js_String rt Null = ''null''"
| "js_String rt (Bool b) = (if b then ''true'' else ''false'')"
| "js_String rt (Num n) = n"
| "js_String rt (Str s) = s"
| "js_String rt (Arr xs) =
     join '','' (map (\<lambda>x. case x of Undefined \<Rightarrow> [] | Null \<Rightarrow> [] | _ \<Rightarrow> js_String rt x) xs)"
| "js_String rt (Obj kvs) = ''[object Object]''"
| "js_String rt (Native k) =
     (if k = ''__proto__'' then ''[object Object]'' else native_text rt k)"

text \<open>
  What the remote end reads from the JSON text of a value inside an array or an object
  (\<^verbatim>\<open>JSON.stringify\<close>, then the reading of the text): an undefined value, a function and a
  number that is not finite become null inside an array; a property whose value is
  undefined or a function is left out.
\<close>

definition omitted :: "jsval \<Rightarrow> bool" where
  "omitted v = (case v of Undefined \<Rightarrow> True | Native k \<Rightarrow> k \<noteq> ''__proto__'' | _ \<Rightarrow> False)"

fun posted :: "jsval \<Rightarrow> jsval" where
  "posted Undefined = Null"
| "posted Null = Null"
| "posted (Bool b) = Bool b"
| "posted (Num n) =
     (if n = ''NaN'' \<or> n = ''Infinity'' \<or> n = ''-Infinity'' then Null else Num n)"
| "posted (Str s) = Str s"
| "posted (Arr xs) = Arr (map posted xs)"
| "posted (Obj kvs) = Obj (map (\<lambda>kv. (fst kv, posted (snd kv))) (filter (\<lambda>kv. \<not> omitted (snd kv)) kvs))"
| "posted (Native k) = (if k = ''__proto__'' then Obj [] else Null)"

section \<open>The remote query executor (sqlDatabase.ts)\<close>

text \<open>
  One HTTP exchange. A request is either the JSON body \<^verbatim>\<open>{sql, params}\<close> posted to the
  execute endpoint, or the multipart form (file, table, mode) posted to the upload
  endpoint; a file is modelled by its text. The parameters of a request are the values
  that the remote end reads from the JSON body (\<open>posted\<close>). The remote end answers from
  the requests it has seen so far and the current one: \<open>Rejected\<close> when \<^verbatim>\<open>fetch\<close> itself
  fails, otherwise a status, the body as text and the body as JSON (\<open>None\<close> when it does
  not parse).
\<close>

datatype upload_mode = Create | Append

datatype request = Execute string "jsval list" | Upload string string upload_mode

datatype reply = Rejected | Response nat string "jsval option"

type_synonym server = "request list \<Rightarrow> request \<Rightarrow> reply"

text \<open>
  Failures. \<open>RemoteError status text\<close> is \<^verbatim>\<open>Error(`DB Error: ${status} - ${errorText}`)\<close>,
  \<open>UploadError\<close> is \<^verbatim>\<open>Error(`Upload failed: ...`)\<close>, \<open>NotFoundError rid resource\<close> is
  \<^verbatim>\<open>Error(`Record with id ${id} not found in ${resource}`)\<close>; \<open>FetchError\<close>, \<open>SyntaxError\<close>
  and \<open>TypeError\<close> are raised by the runtime (a rejected fetch, a body that is not JSON,
  a method called on a value that has none).
\<close>

datatype error =
  RemoteError nat string | UploadError nat string | NotFoundError jsval string
  | FetchError | SyntaxError | TypeError

text \<open>An asynchronous operation: from the requests sent so far to a result or a failure,
  and the requests sent after it.\<close>

type_synonym 'a io = "request list \<Rightarrow> (error + 'a) \<times> request list"

definition return :: "'a \<Rightarrow> 'a io" where
  "return x log = (Inr x, log)"

definition throw :: "error \<Rightarrow> 'a io" where
  "throw e log = (Inl e, log)"

definition await :: "'a io \<Rightarrow> ('a \<Rightarrow> 'b io) \<Rightarrow> 'b io" where
  "await m k log = (case m log of (Inl e, log') \<Rightarrow> (Inl e, log') | (Inr x, log') \<Rightarrow> k x log')"

definition fetch :: "server \<Rightarrow> request \<Rightarrow> request list \<Rightarrow> reply \<times> request list" where
  "fetch srv req log = (srv log req, log @ [req])"

text \<open>\<^verbatim>\<open>response.ok\<close>\<close>

definition ok :: "nat \<Rightarrow> bool" where
  "ok status = (200 \<le> status \<and> status \<le> 299)"

text \<open>The normalisation of the response body in \<^verbatim>\<open>remoteExecute\<close> (the value of
  \<^verbatim>\<open>finalData\<close> at the return).\<close>

definition finalData :: "jsval \<Rightarrow> jsval" where
  "finalData data =
     (case data of
        Arr xs \<Rightarrow> data
      | Obj kvs \<Rightarrow>
          (let fd = js_or (getProp data ''results'')
                      (js_or (getProp data ''data'')
                         (if truthy (getProp data ''rows'') then getProp data ''rows'' else Arr []))
           in if \<not> isArray fd \<and> length (map fst kvs) > 0 then Arr [data] else fd)
      | _ \<Rightarrow> Arr [])"

definition elements :: "jsval \<Rightarrow> jsval list" where
  "elements v = (case v of Arr xs \<Rightarrow> xs | _ \<Rightarrow> [])"

definition remoteExecute :: "server \<Rightarrow> string \<Rightarrow> jsval list \<Rightarrow> jsval list io" where
  "remoteExecute srv sql params log =
     (case fetch srv (Execute sql (map posted params)) log of
        (Rejected, log') \<Rightarrow> (Inl FetchError, log')
      | (Response status errorText body, log') \<Rightarrow>
          if \<not> ok status then (Inl (RemoteError status errorText), log')
          else (case body of
                  None \<Rightarrow> (Inl SyntaxError, log')
                | Some data \<Rightarrow> (Inr (elements (finalData data)), log')))"

definition execQuery :: "server \<Rightarrow> string \<Rightarrow> jsval list \<Rightarrow> jsval list io" where
  "execQuery = remoteExecute"

definition getTableColumns :: "server \<Rightarrow> string \<Rightarrow> jsval list io" where
  \<open>getTableColumns srv tableName =
     remoteExecute srv (''PRAGMA table_info("'' @ replace_dq tableName @ ''")'') []\<close>

definition dropTable :: "server \<Rightarrow> string \<Rightarrow> unit io" where
  \<open>dropTable srv tableName =
     await (remoteExecute srv (''DROP TABLE IF EXISTS "'' @ replace_dq tableName @ ''"'') [])
       (\<lambda>_. return ())\<close>

section \<open>The data provider (dataProvider.ts)\<close>

text \<open>
  A filter of the list request is a logical filter (field, operator, value) or a
  conditional one (operator and sub-filters, no field). A sorter is a field and a
  direction; the direction is \<^verbatim>\<open>"asc" | "desc"\<close>. The fields of the pagination are
  optional numbers, given by their text forms.
\<close>

datatype CrudFilter =
  LogicalFilter string string jsval
  | ConditionalFilter string "CrudFilter list"

datatype sort_order = Asc | Desc

record CrudSort =
  field :: string
  order :: sort_order

record Pagination =
  currentPage :: "string option"
  pageSize :: "string option"

record ListResponse =
  data :: "jsval list"
  total :: jsval

text \<open>\<^verbatim>\<open>s.order.toUpperCase()\<close>\<close>

definition order_upper :: "sort_order \<Rightarrow> string" where
  "order_upper d = toUpperCase (case d of Asc \<Rightarrow> ''asc'' | Desc \<Rightarrow> ''desc'')"

text \<open>The predicate of the column filter: the declared type, in upper case, contains
  TEXT, CHAR or CLOB.\<close>

definition is_text_type :: "string \<Rightarrow> bool" where
  "is_text_type t =
     (let type = toUpperCase t
      in includesStr type ''TEXT'' \<or> includesStr type ''CHAR'' \<or> includesStr type ''CLOB'')"

text \<open>
  \<^verbatim>\<open>tableCols.filter(col => ...)\<close>. The rows are cast to column metadata, not checked:
  \<^verbatim>\<open>col.type.toUpperCase()\<close> raises a \<open>TypeError\<close> on a row whose \<^verbatim>\<open>type\<close> is not a string.
\<close>

fun filter_text_cols :: "jsval list \<Rightarrow> error + jsval list" where
  "filter_text_cols [] = Inr []"
| "filter_text_cols (col # cols) =
     (case (case col of Undefined \<Rightarrow> Undefined | Null \<Rightarrow> Undefined | _ \<Rightarrow> getProp col ''type'') of
        Str t \<Rightarrow>
          (case filter_text_cols cols of
             Inl e \<Rightarrow> Inl e
           | Inr rest \<Rightarrow> Inr (if is_text_type t then col # rest else rest))
      | _ \<Rightarrow> Inl TypeError)"

text \<open>\<^verbatim>\<open>searchableCols.map(col => `${quote(col)} LIKE ?`)\<close>: \<^verbatim>\<open>quote\<close> calls \<^verbatim>\<open>replace\<close> on the
  name, a \<open>TypeError\<close> when the name is not a string.\<close>

fun like_clauses :: "jsval list \<Rightarrow> error + string list" where
  "like_clauses [] = Inr []"
| "like_clauses (col # cols) =
     (case col of
        Str name \<Rightarrow>
          (case like_clauses cols of
             Inl e \<Rightarrow> Inl e
           | Inr rest \<Rightarrow> Inr ((quote name @ '' LIKE ?'') # rest))
      | _ \<Rightarrow> Inl TypeError)"

text \<open>The loop over the filters of \<^verbatim>\<open>getList\<close>, with its two accumulators.\<close>

fun where_loop ::
  "runtime \<Rightarrow> server \<Rightarrow> string \<Rightarrow> CrudFilter list \<Rightarrow> string list \<Rightarrow> jsval list
     \<Rightarrow> (string list \<times> jsval list) io" where
  "where_loop rt srv resource [] whereClauses params log = (Inr (whereClauses, params), log)"
| "where_loop rt srv resource (ConditionalFilter operator fs # filters) whereClauses params log =
     where_loop rt srv resource filters whereClauses params log"
| "where_loop rt srv resource (LogicalFilter fld operator v # filters) whereClauses params log =
     (if fld = ''q'' \<and> truthy v then
        (case getTableColumns srv resource log of
           (Inl e, log') \<Rightarrow> (Inl e, log')
         | (Inr tableCols, log') \<Rightarrow>
             (case filter_text_cols tableCols of
                Inl e \<Rightarrow> (Inl e, log')
              | Inr textCols \<Rightarrow>
                  (let searchableCols = map (\<lambda>col. getProp col ''name'') textCols
                   in if length searchableCols > 0 then
                        (case like_clauses searchableCols of
                           Inl e \<Rightarrow> (Inl e, log')
                         | Inr searchClauses \<Rightarrow>
                             where_loop rt srv resource filters
                               (whereClauses @ [''('' @ join '' OR '' searchClauses @ '')''])
                               (params @ map (\<lambda>_. Str (''%'' @ js_String rt v @ ''%'')) searchableCols)
                               log')
                      else where_loop rt srv resource filters whereClauses params log')))
      else where_loop rt srv resource filters whereClauses params log)"

definition baseWhere :: "string list \<Rightarrow> string" where
  "baseWhere whereClauses =
     (if length whereClauses > 0 then '' WHERE '' @ join '' AND '' whereClauses else [])"

definition countQuery :: "string \<Rightarrow> string list \<Rightarrow> string" where
  "countQuery resource whereClauses =
     ''SELECT COUNT(*) as total FROM '' @ quote resource @ baseWhere whereClauses"

text \<open>\<^verbatim>\<open>countResult[0]?.total || countResult[0]?.count || countResult[0]?.['COUNT(*)'] || 0\<close>\<close>

definition count_total :: "jsval list \<Rightarrow> jsval" where
  "count_total countResult =
     js_or (opt_prop (first countResult) ''total'')
       (js_or (opt_prop (first countResult) ''count'')
          (js_or (opt_prop (first countResult) ''COUNT(*)'') (Num ''0'')))"

definition orderClause :: "CrudSort list \<Rightarrow> string" where
  "orderClause sorters =
     (if length sorters > 0
      then '' ORDER BY '' @ join '', '' (map (\<lambda>s. quote (field s) @ '' '' @ order_upper (order s)) sorters)
      else '' ORDER BY id DESC'')"

text \<open>\<^verbatim>\<open>x || d\<close> on an optional number: the default replaces an absent value, zero and
  NaN.\<close>

definition or_default :: "string option \<Rightarrow> string \<Rightarrow> string" where
  "or_default x d = (case x of None \<Rightarrow> d | Some n \<Rightarrow> if truthy (Num n) then n else d)"

text \<open>The numbers are written into the text in their text forms; the offset is computed
  by the runtime.\<close>

definition limitClause :: "runtime \<Rightarrow> Pagination option \<Rightarrow> string" where
  "limitClause rt pagination =
     (case pagination of
        None \<Rightarrow> []
      | Some p \<Rightarrow>
          (let currentPage = or_default (currentPage p) ''1'';
               pageSize = or_default (pageSize p) ''10'';
               offset = num_times rt (num_minus rt currentPage ''1'') pageSize
           in '' LIMIT '' @ pageSize @ '' OFFSET '' @ offset))"

definition finalQuery ::
  "runtime \<Rightarrow> string \<Rightarrow> string list \<Rightarrow> CrudSort list \<Rightarrow> Pagination option \<Rightarrow> string" where
  "finalQuery rt resource whereClauses sorters pagination =
     ''SELECT * FROM '' @ quote resource @ baseWhere whereClauses
       @ orderClause sorters @ limitClause rt pagination"

definition getList ::
  "runtime \<Rightarrow> server \<Rightarrow> string \<Rightarrow> CrudFilter list \<Rightarrow> CrudSort list \<Rightarrow> Pagination option
     \<Rightarrow> ListResponse io" where
  "getList rt srv resource filters sorters pagination =
     await (where_loop rt srv resource filters [] [])
       (\<lambda>(whereClauses, params).
          await (execQuery srv (countQuery resource whereClauses) params)
            (\<lambda>countResult.
               await (execQuery srv (finalQuery rt resource whereClauses sorters pagination) params)
                 (\<lambda>rows. return \<lparr>data = rows, total = count_total countResult\<rparr>)))"

definition getOne :: "server \<Rightarrow> string \<Rightarrow> jsval \<Rightarrow> jsval io" where
  "getOne srv resource rid =
     (let safeResource = quote resource
      in await (execQuery srv (''SELECT * FROM '' @ safeResource @ '' WHERE id = ?'') [rid])
           (\<lambda>rows. if length rows = 0 then throw (NotFoundError rid resource)
                    else return (first rows)))"

text \<open>The variables of \<^verbatim>\<open>create\<close> and \<^verbatim>\<open>update\<close> are an object: its keys and values in
  the order in which \<^verbatim>\<open>Object.keys\<close> and \<^verbatim>\<open>Object.values\<close> enumerate them.\<close>

definition create :: "server \<Rightarrow> string \<Rightarrow> (string \<times> jsval) list \<Rightarrow> jsval io" where
  "create srv resource variables =
     (let safeResource = quote resource;
          keys = map fst variables;
          cols = join '', '' (map quote keys);
          placeholders = join '', '' (map (\<lambda>_. ''?'') keys);
          vals = map snd variables
      in await (execQuery srv
                  (''INSERT INTO '' @ safeResource @ '' ('' @ cols @ '') VALUES ('' @ placeholders @ '')'')
                  vals)
           (\<lambda>_. await (execQuery srv (''SELECT * FROM '' @ safeResource @ '' ORDER BY id DESC LIMIT 1'') [])
                   (\<lambda>result. return (first result))))"

definition update :: "server \<Rightarrow> string \<Rightarrow> jsval \<Rightarrow> (string \<times> jsval) list \<Rightarrow> jsval io" where
  "update srv resource rid variables =
     (let safeResource = quote resource;
          keys = map fst variables;
          setClause = join '', '' (map (\<lambda>key. quote key @ '' = ?'') keys);
          vals = map snd variables @ [rid]
      in await (execQuery srv (''UPDATE '' @ safeResource @ '' SET '' @ setClause @ '' WHERE id = ?'') vals)
           (\<lambda>_. await (execQuery srv (''SELECT * FROM '' @ safeResource @ '' WHERE id = ?'') [rid])
                   (\<lambda>result. return (first result))))"

definition deleteOne :: "server \<Rightarrow> string \<Rightarrow> jsval \<Rightarrow> jsval io" where
  "deleteOne srv resource rid =
     (let safeResource = quote resource
      in await (execQuery srv (''DELETE FROM '' @ safeResource @ '' WHERE id = ?'') [rid])
           (\<lambda>_. return (Obj [(''id'', rid)])))"

definition deleteMany :: "server \<Rightarrow> string \<Rightarrow> jsval list \<Rightarrow> jsval list io" where
  "deleteMany srv resource ids =
     (let safeResource = quote resource;
          placeholders = join '', '' (map (\<lambda>_. ''?'') ids)
      in await (execQuery srv (''DELETE FROM '' @ safeResource @ '' WHERE id IN ('' @ placeholders @ '')'') ids)
           (\<lambda>_. return (map (\<lambda>i. Obj [(''id'', i)]) ids)))"

section \<open>Table lifecycle operations (sqlDatabase.ts)\<close>

record ColumnDefinition =
  name :: string
  type :: string










definition uploadCSV :: "server \<Rightarrow> string \<Rightarrow> string \<Rightarrow> upload_mode \<Rightarrow> jsval io" where
  "uploadCSV srv file tableName mode log =
     (case fetch srv (Upload file tableName mode) log of
        (Rejected, log') \<Rightarrow> (Inl FetchError, log')
      | (Response status errorText body, log') \<Rightarrow>
          if \<not> ok status then (Inl (UploadError status errorText), log')
          else (case body of
                  None \<Rightarrow> (Inl SyntaxError, log')
                | Some v \<Rightarrow> (Inr v, log')))"

section \<open>The columns that a CREATE TABLE statement declares\<close>

text \<open>
  What the store reads in the statements built above; this reading is not part of the
  console, it is the yardstick for them. A statement is \<^verbatim>\<open>CREATE TABLE "t" (d1, d2, ...)\<close>:
  the table name is a quoted identifier, in which a doubled quote stands for one quote;
  the column definitions are separated by the commas that are outside quotes; the name
  of a column is the quoted identifier, or the word, that its definition starts with.
  The store compares column names without regard to the case of the ASCII letters.
  Parentheses and comments are not interpreted: the reading is meant for definitions
  made of a name and a plain type name.
\<close>






section \<open>The CSV codec (utils/csv.ts)\<close>

definition escape :: "runtime \<Rightarrow> jsval \<Rightarrow> string" where
  \<open>escape rt val =
     (if val = Null \<or> val = Undefined then []
      else (let str = js_String rt val
            in if includesStr str '','' \<or> includesStr str ''"'' \<or> includesStr str [CHR 0x0A]
               then ''"'' @ replace_dq str @ ''"''
               else str))\<close>

definition generateCSV :: "runtime \<Rightarrow> (string \<times> jsval) list list \<Rightarrow> string list \<Rightarrow> string" where
  "generateCSV rt rows headers =
     (let headerRow = join '','' headers;
          bodyRows = join [CHR 0x0A]
                       (map (\<lambda>row. join '','' (map (\<lambda>header. escape rt (getProp (Obj row) header)) headers))
                          rows)
      in headerRow @ [CHR 0x0A] @ bodyRows)"

text \<open>\<^verbatim>\<open>text.split(/\r?\n/)\<close>: the text is cut at every line feed and at every carriage
  return that a line feed follows; the second argument is the line read so far.\<close>

fun split_lines :: "string \<Rightarrow> string \<Rightarrow> string list" where
  "split_lines [] cur = [cur]"
| "split_lines [c] cur = (if c = CHR 0x0A then [cur, []] else [cur @ [c]])"
| "split_lines (c # d # cs) cur =
     (if c = CHR 0x0A then cur # split_lines (d # cs) []
      else if c = CHR 0x0D \<and> d = CHR 0x0A then cur # split_lines cs []
      else split_lines (d # cs) (cur @ [c]))"

text \<open>The loop of \<^verbatim>\<open>parseLine\<close>: the rest of the line, and the variables \<^verbatim>\<open>cur\<close>,
  \<^verbatim>\<open>inQuote\<close> and \<^verbatim>\<open>result\<close>.\<close>

fun parseLine_loop :: "string \<Rightarrow> string \<Rightarrow> bool \<Rightarrow> string list \<Rightarrow> string list" where
  \<open>parseLine_loop [] cur inQuote result = result @ [cur]\<close>
| \<open>parseLine_loop [c] cur inQuote result =
     (if c = CHR ''"'' then parseLine_loop [] cur (\<not> inQuote) result
      else if c = CHR '','' \<and> \<not> inQuote then parseLine_loop [] [] inQuote (result @ [cur])
      else parseLine_loop [] (cur @ [c]) inQuote result)\<close>
| \<open>parseLine_loop (c # d # cs) cur inQuote result =
     (if c = CHR ''"'' \<and> d = CHR ''"'' then parseLine_loop cs (cur @ ''"'') inQuote result
      else if c = CHR ''"'' then parseLine_loop (d # cs) cur (\<not> inQuote) result
      else if c = CHR '','' \<and> \<not> inQuote then parseLine_loop (d # cs) [] inQuote (result @ [cur])
      else parseLine_loop (d # cs) (cur @ [c]) inQuote result)\<close>

definition parseLine :: "string \<Rightarrow> string list" where
  "parseLine line = parseLine_loop line [] False []"

text \<open>\<^verbatim>\<open>obj[h] = v\<close> for a string or undefined \<open>v\<close>: an existing property keeps its place
  and takes the new value. The key \<^verbatim>\<open>__proto__\<close> is the inherited setter of the prototype,
  which ignores such a value: no property is made.\<close>

fun set_prop :: "(string \<times> jsval) list \<Rightarrow> string \<Rightarrow> jsval \<Rightarrow> (string \<times> jsval) list" where
  "set_prop [] h v = [(h, v)]"
| "set_prop ((k, w) # kvs) h v = (if k = h then (k, v) # kvs else (k, w) # set_prop kvs h v)"

definition assign :: "(string \<times> jsval) list \<Rightarrow> string \<Rightarrow> jsval \<Rightarrow> (string \<times> jsval) list" where
  "assign obj h v = (if h = ''__proto__'' then obj else set_prop obj h v)"

text \<open>\<^verbatim>\<open>headers.forEach((h, i) => { obj[h] = values[i]?.trim(); })\<close>, from index \<open>i\<close> on.\<close>

fun fill_row :: "string list \<Rightarrow> string list \<Rightarrow> (string \<times> jsval) list \<Rightarrow> (string \<times> jsval) list" where
  "fill_row [] values obj = obj"
| "fill_row (h # hs) values obj =
     fill_row hs (tl values)
       (assign obj h (case values of [] \<Rightarrow> Undefined | v # _ \<Rightarrow> Str (trim v)))"

record ParsedCSV =
  headers :: "string list"
  rows :: "(string \<times> jsval) list list"

definition parseCSV :: "string \<Rightarrow> ParsedCSV" where
  "parseCSV text =
     (let lines = filter (\<lambda>line. trim line \<noteq> []) (split_lines text [])
      in if length lines = 0 then \<lparr>headers = [], rows = []\<rparr>
         else (let hs = map trim (parseLine (hd lines))
               in \<lparr>headers = hs,
                   rows = map (\<lambda>line. fill_row hs (parseLine line) []) (tl lines)\<rparr>))"

section \<open>The import dialog (components/ImportModal.tsx)\<close>

text \<open>The mode of the dialog, \<^verbatim>\<open>'append' | 'replace'\<close>.\<close>

datatype import_mode = ModeAppend | ModeReplace

datatype import_outcome = NotStarted | Imported jsval | Failed error

text \<open>
  \<^verbatim>\<open>validateAndImport\<close>, on the state of the dialog: the chosen file and its parsed
  preview (both absent until a file is picked) and the import mode. The outcome is what
  the handler reports: nothing, \<^verbatim>\<open>onSuccess(result.rows_inserted)\<close>, or the alert of the
  caught failure.
\<close>

definition validateAndImport ::
  "server \<Rightarrow> string \<Rightarrow> string option \<Rightarrow> ParsedCSV option \<Rightarrow> import_mode
     \<Rightarrow> request list \<Rightarrow> import_outcome \<times> request list" where
  \<open>validateAndImport srv resource file fileData mode log =
     (case (file, fileData) of
        (Some f, Some parsed) \<Rightarrow>
          (case (if mode = ModeReplace
                 then (let safeResource = ''"'' @ replace_dq resource @ ''"''
                       in await (execQuery srv (''DELETE FROM '' @ safeResource) []) (\<lambda>_. return ()))
                 else return ()) log of
             (Inl e, log') \<Rightarrow> (Failed e, log')
           | (Inr _, log') \<Rightarrow>
               (case uploadCSV srv f resource Append log' of
                  (Inl e, log'') \<Rightarrow> (Failed e, log'')
                | (Inr result, log'') \<Rightarrow>
                    if result = Null \<or> result = Undefined then (Failed TypeError, log'')
                    else (Imported (getProp result ''rows_inserted''), log'')))
      | _ \<Rightarrow> (NotStarted, log))\<close>

section \<open>Sample remote ends\<close>

text \<open>A remote end that gives the same answer to every request, and one that holds a
  table with an integer key and two text columns, counts three rows and has one row for
  the page at offset 5.\<close>

definition const_server :: "reply \<Rightarrow> server" where
  "const_server r log req = r"

definition demo_server :: server where
  "demo_server log req =
     (case req of
        Execute sql params \<Rightarrow>
          if startsWith sql ''PRAGMA'' then
            Response 200 []
              (Some (Arr [Obj [(''name'', Str ''id''), (''type'', Str ''INTEGER'')],
                          Obj [(''name'', Str ''title''), (''type'', Str ''varchar(20)'')],
                          Obj [(''name'', Str ''body''), (''type'', Str ''Text'')]]))
          else if startsWith sql ''SELECT COUNT'' then
            Response 200 [] (Some (Obj [(''results'', Arr [Obj [(''total'', Num ''3'')]])]))
          else if includesStr sql ''OFFSET 5'' then
            Response 200 [] (Some (Arr [Obj [(''id'', Num ''6'')]]))
          else Response 200 [] (Some (Arr []))
      | Upload f t m \<Rightarrow> Response 200 [] (Some (Obj [(''rows_inserted'', Num ''2'')])))"

text \<open>A sample runtime. On the decimal texts of integers it computes as the language does
  as long as the numbers stay below \<open>2 ^ 53\<close> in magnitude, where the arithmetic is exact
  and the text form is the decimal one; on other texts it is arbitrary. The theorems
  stated for every runtime do not use it.\<close>

definition read_nat :: "string \<Rightarrow> nat" where
  "read_nat s = foldl (\<lambda>n d. 10 * n + (of_char d - 48)) 0 s"

definition read_int :: "string \<Rightarrow> int" where
  "read_int s =
     (case s of
        [] \<Rightarrow> 0
      | c # cs \<Rightarrow> if c = CHR ''-'' then - int (read_nat cs) else int (read_nat s))"

definition integer_runtime :: runtime where
  "integer_runtime =
     \<lparr>num_minus = (\<lambda>a b. dec_int (read_int a - read_int b)),
      num_times = (\<lambda>a b. dec_int (read_int a * read_int b)),
      native_text =
        (\<lambda>k. ''function '' @ (if k = ''constructor'' then ''Object'' else k) @ ''() { [native code] }'')\<rparr>"


section \<open>Identifier quoting\<close>

lemma undouble_replace_dq: \<open>undouble (replace_dq s) = Some s\<close>
proof (induction s)
  case Nil
  show ?case by (simp add: replace_dq_def)
next
  case (Cons c s)
  have step: \<open>replace_dq (c # s) = (if c = CHR ''"'' then [CHR ''"'', CHR ''"''] else [c]) @ replace_dq s\<close>
    by (simp add: replace_dq_def)
  show ?case
  proof (cases \<open>c = CHR ''"''\<close>)
    case True
    with Cons.IH step show ?thesis by simp
  next
    case False
    with Cons.IH step show ?thesis by (cases \<open>replace_dq s\<close>) auto
  qed
qed

lemma strip_outer_quotes_quote: \<open>strip_outer_quotes (quote s) = Some (replace_dq s)\<close>
  by (simp add: strip_outer_quotes_def quote_def butlast_append)

lemma count_replace_dq:
  \<open>count_list (replace_dq s) (CHR ''"'') = 2 * count_list s (CHR ''"'')\<close>
  by (induction s) (simp_all add: replace_dq_def)

text \<open>
  C3. For every identifier \<open>s\<close>, with or without double quotes inside, \<open>quote s\<close> is \<open>s\<close>
  with each double quote doubled, between one opening and one closing double quote; the
  doubled body has exactly twice the double quotes of \<open>s\<close>; stripping the outer pair and
  un-doubling gives \<open>s\<close> back.
\<close>

theorem quote_round_trip:
  \<open>quote s = CHR ''"'' # concat (map (\<lambda>c. if c = CHR ''"'' then ''""'' else [c]) s) @ ''"''
   \<and> strip_outer_quotes (quote s) = Some (replace_dq s)
   \<and> count_list (replace_dq s) (CHR ''"'') = 2 * count_list s (CHR ''"'')
   \<and> undouble (replace_dq s) = Some s
   \<and> unquote (quote s) = Some s\<close>
  by (simp add: unquote_def strip_outer_quotes_quote undouble_replace_dq count_replace_dq)
    (simp add: quote_def replace_dq_def)

theorem quote_round_trip_witness:
  \<open>quote ''a"b'' = ''"a""b"'' \<and> unquote (quote ''a"b'') = Some ''a"b''\<close>
  using quote_round_trip [of \<open>''a"b''\<close>] by (simp add: quote_def replace_dq_def)

section \<open>The remote query executor\<close>

lemma await_Inl: "m log = (Inl e, log') \<Longrightarrow> await m k log = (Inl e, log')"
  by (simp add: await_def)

lemma await_Inr: "m log = (Inr x, log') \<Longrightarrow> await m k log = k x log'"
  by (simp add: await_def)

lemma snd_remoteExecute: "snd (remoteExecute srv sql params log) = log @ [Execute sql (map posted params)]"
  by (simp add: remoteExecute_def fetch_def split: reply.splits option.splits)

lemma remoteExecute_result:
  "(\<exists>e. remoteExecute srv sql params log = (Inl e, log @ [Execute sql (map posted params)])
        \<and> (e = FetchError \<or> e = SyntaxError \<or> (\<exists>status errorText. e = RemoteError status errorText)))
   \<or> (\<exists>rows. remoteExecute srv sql params log = (Inr rows, log @ [Execute sql (map posted params)]))"
proof (cases "srv log (Execute sql (map posted params))")
  case Rejected
  then show ?thesis by (simp add: remoteExecute_def fetch_def)
next
  case (Response status errorText body)
  then show ?thesis
    by (cases body) (simp_all add: remoteExecute_def fetch_def)
qed

lemma remoteExecute_cases:
  obtains e where "remoteExecute srv sql params log = (Inl e, log @ [Execute sql (map posted params)])"
      and "e = FetchError \<or> e = SyntaxError \<or> (\<exists>status errorText. e = RemoteError status errorText)"
    | rows where "remoteExecute srv sql params log = (Inr rows, log @ [Execute sql (map posted params)])"
  using remoteExecute_result [of srv sql params log] by blast

text \<open>The normalised body is always an array, so the rows of \<^verbatim>\<open>remoteExecute\<close> are its
  elements.\<close>

lemma isArray_finalData: "isArray (finalData body)"
proof (cases body)
  case (Obj kvs)
  show ?thesis
  proof (cases "kvs = []")
    case True
    with Obj show ?thesis by (simp add: finalData_def js_or_def object_prototype_def)
  next
    case False
    with Obj show ?thesis by (simp add: finalData_def Let_def)
  qed
qed (simp_all add: finalData_def)

text \<open>An object that has none of the three wrapper keys is normalised to the empty array,
  whatever else it holds.\<close>

lemma finalData_without_wrapper_keys:
  assumes "map_of kvs ''results'' = None" and "map_of kvs ''data'' = None"
    and "map_of kvs ''rows'' = None"
  shows "finalData (Obj kvs) = Arr []"
  using assms by (simp add: finalData_def js_or_def object_prototype_def)

text \<open>
  C8. A successful response whose body is an object without any of the wrapper keys,
  here \<^verbatim>\<open>{"id": 1, "name": "x"}\<close>, is normalised to the empty sequence: the fallback
  \<^verbatim>\<open>[]\<close> of the chain of wrapper keys is itself an array, so the single-row wrapping never
  applies to it. The executor returns no row.
\<close>

theorem finalData_single_object:
  "finalData (Obj [(''id'', Num ''1''), (''name'', Str ''x'')]) = Arr []
   \<and> remoteExecute (const_server (Response 200 [] (Some (Obj [(''id'', Num ''1''), (''name'', Str ''x'')]))))
        ''SELECT 1'' [] []
       = (Inr [], [Execute ''SELECT 1'' []])"
  by (simp add: finalData_def js_or_def remoteExecute_def fetch_def const_server_def ok_def
      elements_def object_prototype_def)

section \<open>The data provider\<close>

text \<open>
  C7. \<^verbatim>\<open>getOne\<close> fails with the not-found error exactly when the SELECT by id returns
  zero rows; when the SELECT returns at least one row, \<^verbatim>\<open>getOne\<close> succeeds with the first.
\<close>

theorem getOne_not_found_iff:
  "((\<exists>a b. fst (getOne srv resource rid log) = Inl (NotFoundError a b))
      \<longleftrightarrow> fst (execQuery srv (''SELECT * FROM '' @ quote resource @ '' WHERE id = ?'') [rid] log) = Inr [])
   \<and> (fst (getOne srv resource rid log) = Inl (NotFoundError rid resource)
      \<longleftrightarrow> fst (execQuery srv (''SELECT * FROM '' @ quote resource @ '' WHERE id = ?'') [rid] log) = Inr [])
   \<and> (\<forall>row rest.
         fst (execQuery srv (''SELECT * FROM '' @ quote resource @ '' WHERE id = ?'') [rid] log)
           = Inr (row # rest)
         \<longrightarrow> fst (getOne srv resource rid log) = Inr row)"
proof (rule remoteExecute_cases
    [of srv "''SELECT * FROM '' @ quote resource @ '' WHERE id = ?''" "[rid]" log])
  fix e
  assume "remoteExecute srv (''SELECT * FROM '' @ quote resource @ '' WHERE id = ?'') [rid] log
            = (Inl e, log @ [Execute (''SELECT * FROM '' @ quote resource @ '' WHERE id = ?'') (map posted [rid])])"
    and "e = FetchError \<or> e = SyntaxError \<or> (\<exists>status errorText. e = RemoteError status errorText)"
  then show ?thesis
    by (auto simp add: getOne_def execQuery_def await_def)
next
  fix found
  assume "remoteExecute srv (''SELECT * FROM '' @ quote resource @ '' WHERE id = ?'') [rid] log
            = (Inr found, log @ [Execute (''SELECT * FROM '' @ quote resource @ '' WHERE id = ?'') (map posted [rid])])"
  then show ?thesis
    by (cases found) (simp_all add: getOne_def execQuery_def await_def throw_def return_def first_def)
qed

theorem getOne_not_found_iff_witness:
  \<open>fst (getOne (const_server (Response 200 [] (Some (Arr [])))) ''t'' (Num ''4'') [])
     = Inl (NotFoundError (Num ''4'') ''t'')
   \<and> fst (getOne (const_server (Response 200 [] (Some (Arr [Obj [(''id'', Num ''4'')], Obj [(''id'', Num ''5'')]]))))
        ''t'' (Num ''4'') [])
     = Inr (Obj [(''id'', Num ''4'')])\<close>
proof -
  have none: "fst (execQuery (const_server (Response 200 [] (Some (Arr []))))
                (''SELECT * FROM '' @ quote ''t'' @ '' WHERE id = ?'') [Num ''4''] []) = Inr []"
    by (simp add: execQuery_def remoteExecute_def fetch_def const_server_def ok_def
        finalData_def elements_def)
  have some: "fst (execQuery (const_server (Response 200 [] (Some (Arr [Obj [(''id'', Num ''4'')], Obj [(''id'', Num ''5'')]]))))
                (''SELECT * FROM '' @ quote ''t'' @ '' WHERE id = ?'') [Num ''4''] [])
              = Inr (Obj [(''id'', Num ''4'')] # [Obj [(''id'', Num ''5'')]])"
    by (simp add: execQuery_def remoteExecute_def fetch_def const_server_def ok_def
        finalData_def elements_def)
  from none have "fst (getOne (const_server (Response 200 [] (Some (Arr [])))) ''t'' (Num ''4'') [])
     = Inl (NotFoundError (Num ''4'') ''t'')"
    using getOne_not_found_iff [of "const_server (Response 200 [] (Some (Arr [])))" "''t''" "Num ''4''" "[]"]
    by simp
  moreover from some have "fst (getOne (const_server (Response 200 [] (Some (Arr [Obj [(''id'', Num ''4'')], Obj [(''id'', Num ''5'')]]))))
        ''t'' (Num ''4'') []) = Inr (Obj [(''id'', Num ''4'')])"
    using getOne_not_found_iff [of "const_server (Response 200 [] (Some (Arr [Obj [(''id'', Num ''4'')], Obj [(''id'', Num ''5'')]])))" "''t''" "Num ''4''" "[]"]
    by blast
  ultimately show ?thesis by simp
qed

text \<open>
  C10. \<^verbatim>\<open>deleteMany\<close> with no ids sends exactly one request, whatever the remote end
  answers: a DELETE whose IN list is empty, with no parameters.
\<close>

theorem deleteMany_empty_ids:
  "snd (deleteMany srv resource [] log)
     = log @ [Execute (''DELETE FROM '' @ quote resource @ '' WHERE id IN ()'') []]"
proof (rule remoteExecute_cases
    [of srv "''DELETE FROM '' @ quote resource @ '' WHERE id IN ()''" "[]" log])
  fix e
  assume "remoteExecute srv (''DELETE FROM '' @ quote resource @ '' WHERE id IN ()'') [] log
            = (Inl e, log @ [Execute (''DELETE FROM '' @ quote resource @ '' WHERE id IN ()'') (map posted [])])"
  then show ?thesis
    by (simp add: deleteMany_def execQuery_def await_def)
next
  fix rows
  assume "remoteExecute srv (''DELETE FROM '' @ quote resource @ '' WHERE id IN ()'') [] log
            = (Inr rows, log @ [Execute (''DELETE FROM '' @ quote resource @ '' WHERE id IN ()'') (map posted [])])"
  then show ?thesis
    by (simp add: deleteMany_def execQuery_def await_def return_def)
qed

theorem deleteMany_empty_ids_witness:
  \<open>snd (deleteMany demo_server ''t'' [] []) = [Execute ''DELETE FROM "t" WHERE id IN ()'' []]\<close>
  using deleteMany_empty_ids [of demo_server "''t''" "[]"]
  by (simp add: quote_def replace_dq_def)

section \<open>The import dialog\<close>

lemma snd_uploadCSV: "snd (uploadCSV srv f t m log) = log @ [Upload f t m]"
  by (simp add: uploadCSV_def fetch_def split: reply.splits option.splits)

lemma validateAndImport_append:
  "snd (validateAndImport srv resource (Some f) (Some parsed) ModeAppend log)
     = log @ [Upload f resource Append]"
proof -
  have "snd (uploadCSV srv f resource Append log) = log @ [Upload f resource Append]"
    by (rule snd_uploadCSV)
  then show ?thesis
    by (cases "uploadCSV srv f resource Append log")
       (auto simp add: validateAndImport_def return_def split: sum.splits)
qed

lemma validateAndImport_replace:
  "snd (validateAndImport srv resource (Some f) (Some parsed) ModeReplace log)
     = (case fst (execQuery srv (''DELETE FROM '' @ quote resource) [] log) of
          Inl e \<Rightarrow> log @ [Execute (''DELETE FROM '' @ quote resource) []]
        | Inr rs \<Rightarrow> log @ [Execute (''DELETE FROM '' @ quote resource) [], Upload f resource Append])"
proof (rule remoteExecute_cases [of srv "''DELETE FROM '' @ quote resource" "[]" log])
  fix e
  assume "remoteExecute srv (''DELETE FROM '' @ quote resource) [] log
            = (Inl e, log @ [Execute (''DELETE FROM '' @ quote resource) (map posted [])])"
  then show ?thesis
    by (simp add: validateAndImport_def execQuery_def await_def quote_def)
next
  fix rows
  assume del: "remoteExecute srv (''DELETE FROM '' @ quote resource) [] log
            = (Inr rows, log @ [Execute (''DELETE FROM '' @ quote resource) (map posted [])])"
  have "snd (uploadCSV srv f resource Append (log @ [Execute (''DELETE FROM '' @ quote resource) []]))
          = log @ [Execute (''DELETE FROM '' @ quote resource) [], Upload f resource Append]"
    by (simp add: snd_uploadCSV)
  with del show ?thesis
    by (cases "uploadCSV srv f resource Append (log @ [Execute (''DELETE FROM '' @ quote resource) []])")
       (auto simp add: validateAndImport_def execQuery_def await_def return_def quote_def
          split: sum.splits)
qed

text \<open>
  C9. An import in replace mode first sends a single DELETE of all rows of the table,
  with no WHERE clause and no parameters, and then, once that request has succeeded,
  sends the file to the upload endpoint in append mode as a second request; when the
  DELETE fails the handler stops and reports the failure. An import in append mode sends
  the upload only. Without a chosen file the handler sends nothing.
\<close>

theorem import_replace_deletes_then_uploads:
  "snd (validateAndImport srv resource (Some f) (Some parsed) ModeReplace log)
     = (case fst (execQuery srv (''DELETE FROM '' @ quote resource) [] log) of
          Inl e \<Rightarrow> log @ [Execute (''DELETE FROM '' @ quote resource) []]
        | Inr rs \<Rightarrow> log @ [Execute (''DELETE FROM '' @ quote resource) [], Upload f resource Append])
   \<and> snd (validateAndImport srv resource (Some f) (Some parsed) ModeAppend log)
     = log @ [Upload f resource Append]
   \<and> validateAndImport srv resource None fileData mode log = (NotStarted, log)
   \<and> validateAndImport srv resource file None mode log = (NotStarted, log)"
  by (simp add: validateAndImport_replace validateAndImport_append)
    (simp add: validateAndImport_def split: option.splits)

theorem import_replace_deletes_then_uploads_witness:
  \<open>snd (validateAndImport demo_server ''t'' (Some ''a,b'') (Some (parseCSV ''a,b'')) ModeReplace [])
     = [Execute ''DELETE FROM "t"'' [], Upload ''a,b'' ''t'' Append]
   \<and> snd (validateAndImport demo_server ''t'' (Some ''a,b'') (Some (parseCSV ''a,b'')) ModeAppend [])
     = [Upload ''a,b'' ''t'' Append]\<close>
proof -
  have del: \<open>fst (execQuery demo_server ''DELETE FROM "t"'' [] []) = Inr []\<close>
    by (simp add: execQuery_def remoteExecute_def fetch_def demo_server_def startsWith_def
        ok_def finalData_def elements_def)
  show ?thesis
    using import_replace_deletes_then_uploads
      [where srv = demo_server and resource = "''t''" and f = "''a,b''"
         and parsed = "parseCSV ''a,b''" and log = "[]"]
    by (simp add: quote_def replace_dq_def del)
qed

section \<open>The CSV codec\<close>

text \<open>
  C6. A row whose only cell holds a line feed, \<^verbatim>\<open>{a: "x\ny"}\<close> under the header \<^verbatim>\<open>a\<close>:
  the generator quotes the cell, the parser cuts the text into lines before it looks at
  the quotes, and returns two rows, \<^verbatim>\<open>{a: "x"}\<close> and \<^verbatim>\<open>{a: "y"}\<close>.
\<close>

theorem csv_round_trip_line_feed:
  \<open>generateCSV rt [[(''a'', Str ''x\<newline>y'')]] [''a''] = ''a\<newline>"x\<newline>y"''
   \<and> parseCSV (generateCSV rt [[(''a'', Str ''x\<newline>y'')]] [''a''])
       = \<lparr>headers = [''a''], rows = [[(''a'', Str ''x'')], [(''a'', Str ''y'')]]\<rparr>\<close>
proof -
  have gen: \<open>generateCSV rt [[(''a'', Str ''x\<newline>y'')]] [''a''] = ''a\<newline>"x\<newline>y"''\<close>
    by (simp add: generateCSV_def escape_def startsWith_def replace_dq_def)
  have \<open>parseCSV ''a\<newline>"x\<newline>y"''
       = \<lparr>headers = [''a''], rows = [[(''a'', Str ''x'')], [(''a'', Str ''y'')]]\<rparr>\<close>
    by (simp add: parseCSV_def parseLine_def trim_def white_space_def startsWith_def assign_def)
  with gen show ?thesis by simp
qed

section \<open>Table lifecycle operations\<close>

subsection \<open>The names that the store takes for \<^verbatim>\<open>id\<close>\<close>












subsection \<open>The reading of the generated statements\<close>













subsection \<open>The statements of the two operations\<close>













section \<open>The list operation\<close>

subsection \<open>Text-like column types\<close>






lemma like_clauses_Inr:
  "like_clauses cols = Inr cl \<Longrightarrow> \<exists>names. cols = map Str names \<and> cl = map (\<lambda>n. quote n @ '' LIKE ?'') names"
proof (induction cols arbitrary: cl)
  case Nil
  then show ?case by simp
next
  case (Cons c cols)
  from Cons.prems obtain n rest where c: "c = Str n" and rest: "like_clauses cols = Inr rest"
    and cl: "cl = (quote n @ '' LIKE ?'') # rest"
    by (cases c; cases "like_clauses cols") auto
  from Cons.IH [OF rest] obtain names where "cols = map Str names"
    "rest = map (\<lambda>n. quote n @ '' LIKE ?'') names" by blast
  with c cl have "c # cols = map Str (n # names) \<and> cl = map (\<lambda>n. quote n @ '' LIKE ?'') (n # names)"
    by simp
  then show ?case by (rule exI [of _ "n # names"])
qed



subsection \<open>The requests of the filter loop\<close>

lemma getTableColumns_cases:
  obtains e where "getTableColumns srv r log
                     = (Inl e, log @ [Execute (''PRAGMA table_info('' @ quote r @ '')'') []])"
  | cols where "getTableColumns srv r log
                     = (Inr cols, log @ [Execute (''PRAGMA table_info('' @ quote r @ '')'') []])"
proof -
  have eq: \<open>''PRAGMA table_info("'' @ replace_dq r @ ''")'' = ''PRAGMA table_info('' @ quote r @ '')''\<close>
    by (simp add: quote_def)
  show ?thesis
    using that remoteExecute_result [of srv "''PRAGMA table_info('' @ quote r @ '')''" "[]" log]
    unfolding getTableColumns_def eq by auto
qed

text \<open>
  The loop sends the column query only, and leaves its accumulators extended by one
  group per active filter: a group is the names of the searchable columns, not empty,
  and the truthy value \<open>v\<close> of a \<^verbatim>\<open>q\<close> filter; it adds the clause with one \<^verbatim>\<open>LIKE ?\<close> per name
  and, per name, one parameter \<^verbatim>\<open>%v%\<close>.
\<close>

lemma where_loop_inv:
  fixes r :: string and rt :: runtime
  defines "pragma \<equiv> Execute (''PRAGMA table_info('' @ quote r @ '')'') []"
  defines "grp \<equiv> (\<lambda>g. ''('' @ join '' OR '' (map (\<lambda>n. quote n @ '' LIKE ?'') (fst g)) @ '')'')"
  defines "pat \<equiv> (\<lambda>g. map (\<lambda>n. Str (''%'' @ js_String rt (snd g) @ ''%'')) (fst g))"
  assumes "where_loop rt srv r fs wc ps log = (res, log')"
  shows "(\<exists>n. log' = log @ replicate n pragma)
       \<and> (\<forall>wc' ps'. res = Inr (wc', ps') \<longrightarrow>
            (\<exists>gs. wc' = wc @ map grp gs \<and> ps' = ps @ concat (map pat gs)
                 \<and> (\<forall>g \<in> set gs. fst g \<noteq> [] \<and> truthy (snd g)
                        \<and> (\<exists>op. LogicalFilter ''q'' op (snd g) \<in> set fs))))"
  using assms(4)
proof (induction fs arbitrary: wc ps log)
  case Nil
  then have "res = Inr (wc, ps)" "log' = log" by simp_all
  then have "wc = wc @ map grp [] \<and> ps = ps @ concat (map pat [])
      \<and> (\<forall>g \<in> set []. fst g \<noteq> [] \<and> truthy (snd g) \<and> (\<exists>op. LogicalFilter ''q'' op (snd g) \<in> set []))"
    by simp
  then have "\<exists>gs. wc = wc @ map grp gs \<and> ps = ps @ concat (map pat gs)
      \<and> (\<forall>g \<in> set gs. fst g \<noteq> [] \<and> truthy (snd g) \<and> (\<exists>op. LogicalFilter ''q'' op (snd g) \<in> set []))"
    by (rule exI [of _ "[]"])
  moreover have "log = log @ replicate 0 pragma" by simp
  then have "\<exists>n. log = log @ replicate n pragma" by (rule exI [of _ 0])
  ultimately show ?case
    using \<open>res = Inr (wc, ps)\<close> \<open>log' = log\<close> by simp
next
  case (Cons f fs)
  have weaken: "(\<exists>n. log' = l1 @ replicate n pragma)
       \<and> (\<forall>wc' ps'. res = Inr (wc', ps') \<longrightarrow>
            (\<exists>gs. wc' = wc1 @ map grp gs \<and> ps' = ps1 @ concat (map pat gs)
                 \<and> (\<forall>g \<in> set gs. fst g \<noteq> [] \<and> truthy (snd g)
                        \<and> (\<exists>op. LogicalFilter ''q'' op (snd g) \<in> set (f # fs)))))"
    if "where_loop rt srv r fs wc1 ps1 l1 = (res, log')" for wc1 ps1 l1
    using Cons.IH [OF that] by (metis list.set_intros(2))
  show ?case
  proof (cases f)
    case (ConditionalFilter op sub)
    with Cons.prems have "where_loop rt srv r fs wc ps log = (res, log')" by simp
    from weaken [OF this] show ?thesis .
  next
    case (LogicalFilter fld op v)
    show ?thesis
    proof (cases "fld = ''q'' \<and> truthy v")
      case False
      with LogicalFilter Cons.prems have "where_loop rt srv r fs wc ps log = (res, log')" by auto
      from weaken [OF this] show ?thesis .
    next
      case True
      have err: ?thesis if "res = Inl e" "log' = log @ [pragma]" for e
      proof -
        from that(2) have "log' = log @ replicate 1 pragma" by simp
        then have "\<exists>n. log' = log @ replicate n pragma" by blast
        with that(1) show ?thesis by simp
      qed
      have longer: "\<exists>n. log' = log @ replicate n pragma" if "log' = (log @ [pragma]) @ replicate m pragma" for m
      proof -
        from that have "log' = log @ replicate (Suc m) pragma" by simp
        then show ?thesis by blast
      qed
      show ?thesis
      proof (rule getTableColumns_cases [of srv r log])
        fix e
        assume "getTableColumns srv r log
                  = (Inl e, log @ [Execute (''PRAGMA table_info('' @ quote r @ '')'') []])"
        with True LogicalFilter Cons.prems have "res = Inl e" "log' = log @ [pragma]"
          by (simp_all add: pragma_def)
        then show ?thesis by (rule err)
      next
        fix cols
        assume gc: "getTableColumns srv r log
                  = (Inr cols, log @ [Execute (''PRAGMA table_info('' @ quote r @ '')'') []])"
        show ?thesis
        proof (cases "filter_text_cols cols")
          case (Inl e)
          with gc True LogicalFilter Cons.prems have "res = Inl e" "log' = log @ [pragma]"
            by (simp_all add: pragma_def)
          then show ?thesis by (rule err)
        next
          case (Inr tc)
          show ?thesis
          proof (cases "tc = []")
            case True
            with Inr gc \<open>fld = ''q'' \<and> truthy v\<close> LogicalFilter Cons.prems
            have rec: "where_loop rt srv r fs wc ps (log @ [pragma]) = (res, log')"
              by (simp add: pragma_def)
            from weaken [OF rec] longer show ?thesis by blast
          next
            case False
            show ?thesis
            proof (cases "like_clauses (map (\<lambda>col. getProp col ''name'') tc)")
              case (Inl e)
              with False Inr gc True LogicalFilter Cons.prems
              have "res = Inl e" "log' = log @ [pragma]"
                by (simp_all add: pragma_def Let_def del: like_clauses.simps)
              then show ?thesis by (rule err)
            next
              case sc: (Inr sc)
              from like_clauses_Inr [OF sc] obtain names where
                cols: "map (\<lambda>col. getProp col ''name'') tc = map Str names"
                and names: "sc = map (\<lambda>n. quote n @ '' LIKE ?'') names" by blast
              from cols False have ne: "names \<noteq> []" by auto
              have new: "map (\<lambda>_. Str (''%'' @ js_String rt v @ ''%'')) (map (\<lambda>col. getProp col ''name'') tc)
                  = pat (names, v)"
                unfolding cols by (simp add: pat_def comp_def)
              from sc False Inr gc True LogicalFilter Cons.prems
              have "where_loop rt srv r fs (wc @ [grp (names, v)])
                      (ps @ map (\<lambda>_. Str (''%'' @ js_String rt v @ ''%'')) (map (\<lambda>col. getProp col ''name'') tc))
                      (log @ [pragma]) = (res, log')"
                by (simp add: pragma_def grp_def names Let_def del: like_clauses.simps)
              then have rec: "where_loop rt srv r fs (wc @ [grp (names, v)]) (ps @ pat (names, v))
                      (log @ [pragma]) = (res, log')"
                by (simp only: new)
              note w = weaken [OF rec]
              have "\<exists>n. log' = log @ replicate n pragma"
                using w longer by blast
              moreover have "\<exists>gs. wc' = wc @ map grp gs \<and> ps' = ps @ concat (map pat gs)
                 \<and> (\<forall>g \<in> set gs. fst g \<noteq> [] \<and> truthy (snd g)
                        \<and> (\<exists>op. LogicalFilter ''q'' op (snd g) \<in> set (f # fs)))"
                if res: "res = Inr (wc', ps')" for wc' ps'
              proof -
                from w res obtain gs where
                  gs: "wc' = (wc @ [grp (names, v)]) @ map grp gs"
                  and qs: "ps' = (ps @ pat (names, v)) @ concat (map pat gs)"
                  and all: "\<forall>g \<in> set gs. fst g \<noteq> [] \<and> truthy (snd g)
                        \<and> (\<exists>op. LogicalFilter ''q'' op (snd g) \<in> set (f # fs))"
                  by blast
                have f_in: "LogicalFilter ''q'' op v \<in> set (f # fs)"
                  using LogicalFilter True by simp
                have "wc' = wc @ map grp ((names, v) # gs)"
                  using gs by simp
                moreover have "ps' = ps @ concat (map pat ((names, v) # gs))"
                  using qs by simp
                moreover have "\<forall>g \<in> set ((names, v) # gs). fst g \<noteq> [] \<and> truthy (snd g)
                        \<and> (\<exists>op. LogicalFilter ''q'' op (snd g) \<in> set (f # fs))"
                  using all f_in ne True by auto
                ultimately have "wc' = wc @ map grp ((names, v) # gs)
                   \<and> ps' = ps @ concat (map pat ((names, v) # gs))
                   \<and> (\<forall>g \<in> set ((names, v) # gs). fst g \<noteq> [] \<and> truthy (snd g)
                        \<and> (\<exists>op. LogicalFilter ''q'' op (snd g) \<in> set (f # fs)))"
                  by blast
                then show ?thesis by (rule exI [of _ "(names, v) # gs"])
              qed
              ultimately show ?thesis by blast
            qed
          qed
        qed
      qed
    qed
  qed
qed

lemma posted_patterns:
  "map posted (concat (map (\<lambda>g. map (\<lambda>n. Str (''%'' @ js_String rt (snd g) @ ''%'')) (fst g)) gs))
     = concat (map (\<lambda>g. map (\<lambda>n. Str (''%'' @ js_String rt (snd g) @ ''%'')) (fst g)) gs)"
  by (induction gs) (simp_all add: comp_def)

subsection \<open>The requests of the data provider\<close>

lemma remoteExecute_log:
  obtains res where "remoteExecute srv sql params log = (res, log @ [Execute sql (map posted params)])"
  using snd_remoteExecute [of srv sql params log]
  by (cases "remoteExecute srv sql params log") simp

lemma getList_Inr:
  assumes "getList rt srv resource fs ss pg log = (Inr res, log1)"
  shows "\<exists>w ps l' cr.
           where_loop rt srv resource fs [] [] log = (Inr (w, ps), l')
         \<and> execQuery srv (countQuery resource w) ps l'
             = (Inr cr, l' @ [Execute (countQuery resource w) (map posted ps)])
         \<and> total res = count_total cr
         \<and> fst (execQuery srv (finalQuery rt resource w ss pg) ps
                  (l' @ [Execute (countQuery resource w) (map posted ps)]))
             = Inr (data res)
         \<and> log1 = l' @ [Execute (countQuery resource w) (map posted ps),
                         Execute (finalQuery rt resource w ss pg) (map posted ps)]"
proof (cases "where_loop rt srv resource fs [] [] log")
  case (Pair r l')
  show ?thesis
  proof (cases r)
    case (Inl e)
    with Pair assms show ?thesis by (simp add: getList_def await_def)
  next
    case (Inr wp)
    obtain w ps where wp: "wp = (w, ps)" by (cases wp)
    let ?l1 = "l' @ [Execute (countQuery resource w) (map posted ps)]"
    obtain c where cnt: "remoteExecute srv (countQuery resource w) ps l' = (c, ?l1)"
      by (rule remoteExecute_log)
    obtain d where fin: "remoteExecute srv (finalQuery rt resource w ss pg) ps ?l1
        = (d, ?l1 @ [Execute (finalQuery rt resource w ss pg) (map posted ps)])"
      by (rule remoteExecute_log)
    show ?thesis
    proof (cases c)
      case (Inl e)
      with Pair Inr wp cnt assms show ?thesis
        by (simp add: getList_def await_def execQuery_def)
    next
      case cr: (Inr cr)
      show ?thesis
      proof (cases d)
        case (Inl e)
        with Pair Inr wp cnt cr fin assms show ?thesis
          by (simp add: getList_def await_def execQuery_def)
      next
        case rs: (Inr rs)
        with Pair Inr wp cnt cr fin assms show ?thesis
          by (auto simp add: getList_def await_def execQuery_def return_def)
      qed
    qed
  qed
qed

lemma getList_log_Inl:
  "where_loop rt srv r fs [] [] log = (Inl e, l') \<Longrightarrow> getList rt srv r fs ss pg log = (Inl e, l')"
  by (simp add: getList_def await_def)

lemma getList_log_Inr:
  assumes "where_loop rt srv r fs [] [] log = (Inr (w, ps), l')"
  shows "snd (getList rt srv r fs ss pg log) = l' @ [Execute (countQuery r w) (map posted ps)]
       \<or> snd (getList rt srv r fs ss pg log)
           = l' @ [Execute (countQuery r w) (map posted ps),
                   Execute (finalQuery rt r w ss pg) (map posted ps)]"
proof -
  let ?l1 = "l' @ [Execute (countQuery r w) (map posted ps)]"
  obtain c where cnt: "remoteExecute srv (countQuery r w) ps l' = (c, ?l1)"
    by (rule remoteExecute_log)
  obtain d where fin: "remoteExecute srv (finalQuery rt r w ss pg) ps ?l1
      = (d, ?l1 @ [Execute (finalQuery rt r w ss pg) (map posted ps)])"
    by (rule remoteExecute_log)
  show ?thesis
  proof (cases c)
    case (Inl e)
    with cnt assms show ?thesis by (simp add: getList_def await_def execQuery_def)
  next
    case (Inr cr)
    with cnt fin assms show ?thesis
      by (cases d) (simp_all add: getList_def await_def execQuery_def return_def)
  qed
qed

lemma snd_getOne:
  "snd (getOne srv r i log)
     = log @ [Execute (''SELECT * FROM '' @ quote r @ '' WHERE id = ?'') [posted i]]"
  by (rule remoteExecute_cases [of srv "''SELECT * FROM '' @ quote r @ '' WHERE id = ?''" "[i]" log])
     (simp_all add: getOne_def execQuery_def await_def throw_def return_def)

lemma snd_deleteOne:
  "snd (deleteOne srv r i log)
     = log @ [Execute (''DELETE FROM '' @ quote r @ '' WHERE id = ?'') [posted i]]"
  by (rule remoteExecute_cases [of srv "''DELETE FROM '' @ quote r @ '' WHERE id = ?''" "[i]" log])
     (simp_all add: deleteOne_def execQuery_def await_def return_def)

lemma snd_deleteMany:
  "snd (deleteMany srv r ids log)
     = log @ [Execute (''DELETE FROM '' @ quote r @ '' WHERE id IN (''
                         @ join '', '' (map (\<lambda>_. ''?'') ids) @ '')'') (map posted ids)]"
  by (rule remoteExecute_cases
        [of srv "''DELETE FROM '' @ quote r @ '' WHERE id IN ('' @ join '', '' (map (\<lambda>_. ''?'') ids) @ '')''"
            ids log])
     (simp_all add: deleteMany_def execQuery_def await_def return_def)

lemma snd_create:
  "\<exists>rest. snd (create srv r vars log)
       = log @ Execute (''INSERT INTO '' @ quote r @ '' ('' @ join '', '' (map (\<lambda>kv. quote (fst kv)) vars)
                          @ '') VALUES ('' @ join '', '' (map (\<lambda>_. ''?'') vars) @ '')'')
                 (map (\<lambda>kv. posted (snd kv)) vars) # rest
     \<and> (rest = [] \<or> rest = [Execute (''SELECT * FROM '' @ quote r @ '' ORDER BY id DESC LIMIT 1'') []])"
proof -
  let ?ins = "''INSERT INTO '' @ quote r @ '' ('' @ join '', '' (map (\<lambda>kv. quote (fst kv)) vars)
                          @ '') VALUES ('' @ join '', '' (map (\<lambda>_. ''?'') vars) @ '')''"
  let ?sel = "''SELECT * FROM '' @ quote r @ '' ORDER BY id DESC LIMIT 1''"
  let ?l1 = "log @ [Execute ?ins (map posted (map snd vars))]"
  have unfold: "create srv r vars
      = await (remoteExecute srv ?ins (map snd vars))
          (\<lambda>_. await (remoteExecute srv ?sel []) (\<lambda>result. return (first result)))"
    by (simp add: create_def execQuery_def Let_def comp_def)
  obtain c where ins: "remoteExecute srv ?ins (map snd vars) log = (c, ?l1)"
    by (rule remoteExecute_log)
  obtain d where sel: "remoteExecute srv ?sel [] ?l1 = (d, ?l1 @ [Execute ?sel (map posted [])])"
    by (rule remoteExecute_log)
  show ?thesis
  proof (cases c)
    case (Inl e)
    with ins show ?thesis unfolding unfold by (simp add: await_def comp_def)
  next
    case (Inr rs)
    with ins sel show ?thesis unfolding unfold
      by (cases d) (simp_all add: await_def return_def comp_def)
  qed
qed

lemma snd_update:
  "\<exists>rest. snd (update srv r i vars log)
       = log @ Execute (''UPDATE '' @ quote r @ '' SET ''
                          @ join '', '' (map (\<lambda>kv. quote (fst kv) @ '' = ?'') vars) @ '' WHERE id = ?'')
                 (map (\<lambda>kv. posted (snd kv)) vars @ [posted i]) # rest
     \<and> (rest = [] \<or> rest = [Execute (''SELECT * FROM '' @ quote r @ '' WHERE id = ?'') [posted i]])"
proof -
  let ?upd = "''UPDATE '' @ quote r @ '' SET ''
                @ join '', '' (map (\<lambda>kv. quote (fst kv) @ '' = ?'') vars) @ '' WHERE id = ?''"
  let ?sel = "''SELECT * FROM '' @ quote r @ '' WHERE id = ?''"
  let ?l1 = "log @ [Execute ?upd (map posted (map snd vars @ [i]))]"
  have unfold: "update srv r i vars
      = await (remoteExecute srv ?upd (map snd vars @ [i]))
          (\<lambda>_. await (remoteExecute srv ?sel [i]) (\<lambda>result. return (first result)))"
    by (simp add: update_def execQuery_def Let_def comp_def)
  obtain c where upd: "remoteExecute srv ?upd (map snd vars @ [i]) log = (c, ?l1)"
    by (rule remoteExecute_log)
  obtain d where sel: "remoteExecute srv ?sel [i] ?l1 = (d, ?l1 @ [Execute ?sel (map posted [i])])"
    by (rule remoteExecute_log)
  show ?thesis
  proof (cases c)
    case (Inl e)
    with upd show ?thesis unfolding unfold by (simp add: await_def comp_def)
  next
    case (Inr rs)
    with upd sel show ?thesis unfolding unfold
      by (cases d) (simp_all add: await_def return_def comp_def)
  qed
qed

lemma order_upper_cases: "order_upper d = (case d of Asc \<Rightarrow> ''ASC'' | Desc \<Rightarrow> ''DESC'')"
  by (cases d)
     (simp_all add: order_upper_def toUpperCase_def upper_special_def startsWith_def
        toUpperChar_def char_of_eq_iff)

text \<open>
  The requests of the list operation: the column query, once per active \<^verbatim>\<open>q\<close> filter,
  then the count query and then the main SELECT, both with the clauses and the
  parameters of the same groups. The operation stops at the first request that fails.
\<close>

lemma getList_log:
  fixes r :: string and rt :: runtime
  defines "pragma \<equiv> Execute (''PRAGMA table_info('' @ quote r @ '')'') []"
  defines "grp \<equiv> (\<lambda>g. ''('' @ join '' OR '' (map (\<lambda>n. quote n @ '' LIKE ?'') (fst g)) @ '')'')"
  defines "pat \<equiv> (\<lambda>g. map (\<lambda>n. Str (''%'' @ js_String rt (snd g) @ ''%'')) (fst g))"
  shows "\<exists>n gs.
       (\<forall>g \<in> set gs. fst g \<noteq> [] \<and> truthy (snd g) \<and> (\<exists>op. LogicalFilter ''q'' op (snd g) \<in> set fs))
     \<and> (snd (getList rt srv r fs ss pg log) = log @ replicate n pragma
        \<or> snd (getList rt srv r fs ss pg log)
            = log @ replicate n pragma
                @ [Execute (''SELECT COUNT(*) as total FROM '' @ quote r @ baseWhere (map grp gs))
                     (concat (map pat gs))]
        \<or> snd (getList rt srv r fs ss pg log)
            = log @ replicate n pragma
                @ [Execute (''SELECT COUNT(*) as total FROM '' @ quote r @ baseWhere (map grp gs))
                     (concat (map pat gs)),
                   Execute (''SELECT * FROM '' @ quote r @ baseWhere (map grp gs)
                              @ orderClause ss @ limitClause rt pg)
                     (concat (map pat gs))])"
proof (cases "where_loop rt srv r fs [] [] log")
  case (Pair res l')
  from where_loop_inv [OF Pair] obtain n where l': "l' = log @ replicate n pragma"
    unfolding pragma_def by blast
  show ?thesis
  proof (cases res)
    case (Inl e)
    with Pair have "snd (getList rt srv r fs ss pg log) = l'"
      by (simp add: getList_log_Inl)
    with l' have "(\<forall>g \<in> set []. fst g \<noteq> [] \<and> truthy (snd g) \<and> (\<exists>op. LogicalFilter ''q'' op (snd g) \<in> set fs))
       \<and> snd (getList rt srv r fs ss pg log) = log @ replicate n pragma"
      by simp
    then show ?thesis by blast
  next
    case (Inr wp)
    obtain w ps where wp: "wp = (w, ps)" by (cases wp)
    from where_loop_inv [OF Pair] Inr wp obtain gs where
      w: "w = map grp gs"
      and ps: "ps = concat (map pat gs)"
      and gs: "\<forall>g \<in> set gs. fst g \<noteq> [] \<and> truthy (snd g) \<and> (\<exists>op. LogicalFilter ''q'' op (snd g) \<in> set fs)"
      unfolding grp_def pat_def by auto
    have posted: "map posted ps = concat (map pat gs)"
      unfolding ps pat_def by (rule posted_patterns)
    have cnt: "countQuery r w = ''SELECT COUNT(*) as total FROM '' @ quote r @ baseWhere (map grp gs)"
      by (simp add: countQuery_def w)
    have fin: "finalQuery rt r w ss pg = ''SELECT * FROM '' @ quote r @ baseWhere (map grp gs)
                    @ orderClause ss @ limitClause rt pg"
      by (simp add: finalQuery_def w)
    from Pair Inr wp have "where_loop rt srv r fs [] [] log = (Inr (w, ps), l')" by simp
    from getList_log_Inr [OF this, of ss pg] gs show ?thesis
      unfolding cnt fin posted l' by auto
  qed
qed


subsection \<open>The sample table\<close>

lemmas exec_eval =
  execQuery_def remoteExecute_def getTableColumns_def fetch_def ok_def finalData_def
  elements_def js_or_def await_def return_def throw_def startsWith_def

lemmas text_eval =
  quote_def replace_dq_def is_text_type_def toUpperCase_def upper_special_def toUpperChar_def
  char_of_eq_iff startsWith_def

lemmas number_eval =
  integer_runtime_def read_int_def read_nat_def dec_int_def dec_nat.simps digit_def
  char_of_eq_iff

lemma demo_limit:
  "limitClause integer_runtime (Some \<lparr>currentPage = Some ''2'', pageSize = Some ''5''\<rparr>)
     = '' LIMIT 5 OFFSET 5''"
  "limitClause integer_runtime (Some \<lparr>currentPage = Some ''3'', pageSize = Some ''20''\<rparr>)
     = '' LIMIT 20 OFFSET 40''"
  "limitClause integer_runtime None = []"
  by (simp_all add: limitClause_def or_default_def number_eval)

lemma demo_columns:
  \<open>getTableColumns demo_server ''t'' []
     = (Inr [Obj [(''name'', Str ''id''), (''type'', Str ''INTEGER'')],
             Obj [(''name'', Str ''title''), (''type'', Str ''varchar(20)'')],
             Obj [(''name'', Str ''body''), (''type'', Str ''Text'')]],
        [Execute ''PRAGMA table_info("t")'' []])\<close>
  by (simp add: exec_eval demo_server_def replace_dq_def object_prototype_def)

lemma demo_text_types:
  "\<not> is_text_type ''INTEGER''" "is_text_type ''varchar(20)''" "is_text_type ''Text''"
  by (simp_all add: text_eval)

lemma demo_where_a:
  \<open>where_loop integer_runtime demo_server ''t'' [LogicalFilter ''q'' ''contains'' (Str ''a'')] [] [] []
     = (Inr ([''("title" LIKE ? OR "body" LIKE ?)''], [Str ''%a%'', Str ''%a%'']),
        [Execute ''PRAGMA table_info("t")'' []])\<close>
  by (simp add: demo_columns demo_text_types quote_def replace_dq_def object_prototype_def)


lemma demo_list_a:
  \<open>getList integer_runtime demo_server ''t'' [LogicalFilter ''q'' ''contains'' (Str ''a'')]
       [\<lparr>field = ''title'', order = Asc\<rparr>] (Some \<lparr>currentPage = Some ''2'', pageSize = Some ''5''\<rparr>) []
     = (Inr \<lparr>data = [Obj [(''id'', Num ''6'')]], total = Num ''3''\<rparr>,
        [Execute ''PRAGMA table_info("t")'' [],
         Execute ''SELECT COUNT(*) as total FROM "t" WHERE ("title" LIKE ? OR "body" LIKE ?)''
           [Str ''%a%'', Str ''%a%''],
         Execute ''SELECT * FROM "t" WHERE ("title" LIKE ? OR "body" LIKE ?) ORDER BY "title" ASC LIMIT 5 OFFSET 5''
           [Str ''%a%'', Str ''%a%'']])\<close>
  by (simp add: getList_def demo_where_a await_def return_def execQuery_def remoteExecute_def
      fetch_def demo_server_def startsWith_def ok_def finalData_def elements_def js_or_def
      countQuery_def finalQuery_def baseWhere_def orderClause_def demo_limit
      order_upper_cases object_prototype_def quote_def replace_dq_def
      count_total_def opt_prop_def first_def del: where_loop.simps)



lemma demo_list_page:
  \<open>getList integer_runtime demo_server ''t'' [] [] (Some \<lparr>currentPage = Some ''2'', pageSize = Some ''5''\<rparr>) []
     = (Inr \<lparr>data = [Obj [(''id'', Num ''6'')]], total = Num ''3''\<rparr>,
        [Execute ''SELECT COUNT(*) as total FROM "t"'' [],
         Execute ''SELECT * FROM "t" ORDER BY id DESC LIMIT 5 OFFSET 5'' []])\<close>
  by (simp add: getList_def await_def return_def execQuery_def remoteExecute_def
      fetch_def demo_server_def startsWith_def ok_def finalData_def elements_def js_or_def
      countQuery_def finalQuery_def baseWhere_def orderClause_def demo_limit object_prototype_def
      quote_def replace_dq_def count_total_def opt_prop_def first_def object_prototype_def)

lemma demo_list_page2:
  \<open>getList integer_runtime demo_server ''t'' [] [] (Some \<lparr>currentPage = Some ''3'', pageSize = Some ''20''\<rparr>) []
     = (Inr \<lparr>data = [], total = Num ''3''\<rparr>,
        [Execute ''SELECT COUNT(*) as total FROM "t"'' [],
         Execute ''SELECT * FROM "t" ORDER BY id DESC LIMIT 20 OFFSET 40'' []])\<close>
  by (simp add: getList_def await_def return_def execQuery_def remoteExecute_def
      fetch_def demo_server_def startsWith_def ok_def finalData_def elements_def js_or_def
      countQuery_def finalQuery_def baseWhere_def orderClause_def demo_limit object_prototype_def
      quote_def replace_dq_def count_total_def opt_prop_def first_def object_prototype_def)

subsection \<open>Values and names in the SQL text\<close>

text \<open>
  C1, as stated, fails on the pagination: the page size and the offset computed from the
  page number are written into the text of the SELECT of the list operation, and its
  parameter list stays empty. Page 2 of size 5 and page 3 of size 20 give two different
  SQL texts.
\<close>

theorem list_interpolates_page_numbers:
  \<open>snd (getList integer_runtime demo_server ''t'' [] []
          (Some \<lparr>currentPage = Some ''2'', pageSize = Some ''5''\<rparr>) [])
     = [Execute ''SELECT COUNT(*) as total FROM "t"'' [],
        Execute ''SELECT * FROM "t" ORDER BY id DESC LIMIT 5 OFFSET 5'' []]
   \<and> snd (getList integer_runtime demo_server ''t'' [] []
          (Some \<lparr>currentPage = Some ''3'', pageSize = Some ''20''\<rparr>) [])
     = [Execute ''SELECT COUNT(*) as total FROM "t"'' [],
        Execute ''SELECT * FROM "t" ORDER BY id DESC LIMIT 20 OFFSET 40'' []]\<close>
  by (simp add: demo_list_page demo_list_page2)

text \<open>
  C1, amended. Every request of \<^verbatim>\<open>getOne\<close>, \<^verbatim>\<open>deleteOne\<close>, \<^verbatim>\<open>deleteMany\<close>, \<^verbatim>\<open>create\<close>,
  \<^verbatim>\<open>update\<close> and \<^verbatim>\<open>getList\<close> has a SQL text in which the table name and every column name
  (the keys of the variables, the fields of the sorters, the searchable columns) occur
  only through \<open>quote\<close>, and in which no record id, field value or filter value occurs:
  these are the bound parameters, in the order of their placeholders and one for each
  placeholder. For the list operation: the requests are the column query, some number of
  times, then the count query and the main SELECT; there are groups, each the non-empty
  list of the searchable column names and the truthy value \<open>v\<close> of a \<^verbatim>\<open>q\<close> filter of the
  request, such that the WHERE clause of both queries has one \<^verbatim>\<open>LIKE ?\<close> per name of each
  group and their parameters are, group by group, one \<^verbatim>\<open>%v%\<close> per name. The text of the
  main SELECT carries the page size and the offset in its LIMIT and OFFSET clause, each
  in the text form of the number.
\<close>

theorem data_access_sql_text:
  "snd (getOne srv r i log)
     = log @ [Execute (''SELECT * FROM '' @ quote r @ '' WHERE id = ?'') [posted i]]
   \<and> snd (deleteOne srv r i log)
       = log @ [Execute (''DELETE FROM '' @ quote r @ '' WHERE id = ?'') [posted i]]
   \<and> snd (deleteMany srv r ids log)
       = log @ [Execute (''DELETE FROM '' @ quote r @ '' WHERE id IN (''
                           @ join '', '' (map (\<lambda>_. ''?'') ids) @ '')'') (map posted ids)]
   \<and> (\<exists>rest. snd (create srv r vars log)
         = log @ Execute (''INSERT INTO '' @ quote r @ '' ('' @ join '', '' (map (\<lambda>kv. quote (fst kv)) vars)
                            @ '') VALUES ('' @ join '', '' (map (\<lambda>_. ''?'') vars) @ '')'')
                   (map (\<lambda>kv. posted (snd kv)) vars) # rest
       \<and> (rest = [] \<or> rest = [Execute (''SELECT * FROM '' @ quote r @ '' ORDER BY id DESC LIMIT 1'') []]))
   \<and> (\<exists>rest. snd (update srv r i vars log)
         = log @ Execute (''UPDATE '' @ quote r @ '' SET ''
                            @ join '', '' (map (\<lambda>kv. quote (fst kv) @ '' = ?'') vars) @ '' WHERE id = ?'')
                   (map (\<lambda>kv. posted (snd kv)) vars @ [posted i]) # rest
       \<and> (rest = [] \<or> rest = [Execute (''SELECT * FROM '' @ quote r @ '' WHERE id = ?'') [posted i]]))
   \<and> (\<exists>n gs.
         (\<forall>g \<in> set gs. fst g \<noteq> [] \<and> truthy (snd g) \<and> (\<exists>op. LogicalFilter ''q'' op (snd g) \<in> set fs))
       \<and> (snd (getList rt srv r fs ss pg log)
             = log @ replicate n (Execute (''PRAGMA table_info('' @ quote r @ '')'') [])
          \<or> snd (getList rt srv r fs ss pg log)
             = log @ replicate n (Execute (''PRAGMA table_info('' @ quote r @ '')'') [])
                 @ [Execute (''SELECT COUNT(*) as total FROM '' @ quote r
                      @ baseWhere (map (\<lambda>g. ''('' @ join '' OR '' (map (\<lambda>n. quote n @ '' LIKE ?'') (fst g)) @ '')'') gs))
                      (concat (map (\<lambda>g. map (\<lambda>n. Str (''%'' @ js_String rt (snd g) @ ''%'')) (fst g)) gs))]
          \<or> snd (getList rt srv r fs ss pg log)
             = log @ replicate n (Execute (''PRAGMA table_info('' @ quote r @ '')'') [])
                 @ [Execute (''SELECT COUNT(*) as total FROM '' @ quote r
                      @ baseWhere (map (\<lambda>g. ''('' @ join '' OR '' (map (\<lambda>n. quote n @ '' LIKE ?'') (fst g)) @ '')'') gs))
                      (concat (map (\<lambda>g. map (\<lambda>n. Str (''%'' @ js_String rt (snd g) @ ''%'')) (fst g)) gs)),
                    Execute (''SELECT * FROM '' @ quote r
                      @ baseWhere (map (\<lambda>g. ''('' @ join '' OR '' (map (\<lambda>n. quote n @ '' LIKE ?'') (fst g)) @ '')'') gs)
                      @ orderClause ss @ limitClause rt pg)
                      (concat (map (\<lambda>g. map (\<lambda>n. Str (''%'' @ js_String rt (snd g) @ ''%'')) (fst g)) gs))]))
   \<and> baseWhere w = (if w = [] then [] else '' WHERE '' @ join '' AND '' w)
   \<and> orderClause ss
       = (if ss = [] then '' ORDER BY id DESC''
          else '' ORDER BY '' @ join '', ''
                 (map (\<lambda>s. quote (field s) @ '' '' @ (case order s of Asc \<Rightarrow> ''ASC'' | Desc \<Rightarrow> ''DESC'')) ss))
   \<and> limitClause rt None = []
   \<and> limitClause rt (Some p)
       = '' LIMIT '' @ or_default (pageSize p) ''10'' @ '' OFFSET ''
           @ num_times rt (num_minus rt (or_default (currentPage p) ''1'') ''1'')
               (or_default (pageSize p) ''10'')
   \<and> or_default None d = d
   \<and> or_default (Some x) d = (if x = ''0'' \<or> x = ''NaN'' then d else x)"
proof (intro conjI)
  show "snd (getOne srv r i log)
     = log @ [Execute (''SELECT * FROM '' @ quote r @ '' WHERE id = ?'') [posted i]]"
    by (rule snd_getOne)
  show "snd (deleteOne srv r i log)
       = log @ [Execute (''DELETE FROM '' @ quote r @ '' WHERE id = ?'') [posted i]]"
    by (rule snd_deleteOne)
  show "snd (deleteMany srv r ids log)
       = log @ [Execute (''DELETE FROM '' @ quote r @ '' WHERE id IN (''
                           @ join '', '' (map (\<lambda>_. ''?'') ids) @ '')'') (map posted ids)]"
    by (rule snd_deleteMany)
  show "\<exists>rest. snd (create srv r vars log)
         = log @ Execute (''INSERT INTO '' @ quote r @ '' ('' @ join '', '' (map (\<lambda>kv. quote (fst kv)) vars)
                            @ '') VALUES ('' @ join '', '' (map (\<lambda>_. ''?'') vars) @ '')'')
                   (map (\<lambda>kv. posted (snd kv)) vars) # rest
       \<and> (rest = [] \<or> rest = [Execute (''SELECT * FROM '' @ quote r @ '' ORDER BY id DESC LIMIT 1'') []])"
    by (rule snd_create)
  show "\<exists>rest. snd (update srv r i vars log)
         = log @ Execute (''UPDATE '' @ quote r @ '' SET ''
                            @ join '', '' (map (\<lambda>kv. quote (fst kv) @ '' = ?'') vars) @ '' WHERE id = ?'')
                   (map (\<lambda>kv. posted (snd kv)) vars @ [posted i]) # rest
       \<and> (rest = [] \<or> rest = [Execute (''SELECT * FROM '' @ quote r @ '' WHERE id = ?'') [posted i]])"
    by (rule snd_update)
  show "\<exists>n gs.
         (\<forall>g \<in> set gs. fst g \<noteq> [] \<and> truthy (snd g) \<and> (\<exists>op. LogicalFilter ''q'' op (snd g) \<in> set fs))
       \<and> (snd (getList rt srv r fs ss pg log)
             = log @ replicate n (Execute (''PRAGMA table_info('' @ quote r @ '')'') [])
          \<or> snd (getList rt srv r fs ss pg log)
             = log @ replicate n (Execute (''PRAGMA table_info('' @ quote r @ '')'') [])
                 @ [Execute (''SELECT COUNT(*) as total FROM '' @ quote r
                      @ baseWhere (map (\<lambda>g. ''('' @ join '' OR '' (map (\<lambda>n. quote n @ '' LIKE ?'') (fst g)) @ '')'') gs))
                      (concat (map (\<lambda>g. map (\<lambda>n. Str (''%'' @ js_String rt (snd g) @ ''%'')) (fst g)) gs))]
          \<or> snd (getList rt srv r fs ss pg log)
             = log @ replicate n (Execute (''PRAGMA table_info('' @ quote r @ '')'') [])
                 @ [Execute (''SELECT COUNT(*) as total FROM '' @ quote r
                      @ baseWhere (map (\<lambda>g. ''('' @ join '' OR '' (map (\<lambda>n. quote n @ '' LIKE ?'') (fst g)) @ '')'') gs))
                      (concat (map (\<lambda>g. map (\<lambda>n. Str (''%'' @ js_String rt (snd g) @ ''%'')) (fst g)) gs)),
                    Execute (''SELECT * FROM '' @ quote r
                      @ baseWhere (map (\<lambda>g. ''('' @ join '' OR '' (map (\<lambda>n. quote n @ '' LIKE ?'') (fst g)) @ '')'') gs)
                      @ orderClause ss @ limitClause rt pg)
                      (concat (map (\<lambda>g. map (\<lambda>n. Str (''%'' @ js_String rt (snd g) @ ''%'')) (fst g)) gs))])"
    by (rule getList_log)
  show "baseWhere w = (if w = [] then [] else '' WHERE '' @ join '' AND '' w)"
    by (simp add: baseWhere_def)
  show "orderClause ss
       = (if ss = [] then '' ORDER BY id DESC''
          else '' ORDER BY '' @ join '', ''
                 (map (\<lambda>s. quote (field s) @ '' '' @ (case order s of Asc \<Rightarrow> ''ASC'' | Desc \<Rightarrow> ''DESC'')) ss))"
    by (simp add: orderClause_def order_upper_cases)
  show "limitClause rt None = []"
    by (simp add: limitClause_def)
  show "limitClause rt (Some p)
       = '' LIMIT '' @ or_default (pageSize p) ''10'' @ '' OFFSET ''
           @ num_times rt (num_minus rt (or_default (currentPage p) ''1'') ''1'')
               (or_default (pageSize p) ''10'')"
    by (simp add: limitClause_def Let_def)
  show "or_default None d = d"
    by (simp add: or_default_def)
  show "or_default (Some x) d = (if x = ''0'' \<or> x = ''NaN'' then d else x)"
    by (simp add: or_default_def)
qed

theorem data_access_sql_text_witness:
  \<open>snd (getOne demo_server ''t'' (Num ''4'') [])
     = [Execute ''SELECT * FROM "t" WHERE id = ?'' [Num ''4'']]
   \<and> snd (deleteMany demo_server ''t'' [Num ''1'', Undefined] [])
       = [Execute ''DELETE FROM "t" WHERE id IN (?, ?)'' [Num ''1'', Null]]
   \<and> snd (getList integer_runtime demo_server ''t'' [LogicalFilter ''q'' ''contains'' (Str ''a'')]
            [\<lparr>field = ''title'', order = Asc\<rparr>]
            (Some \<lparr>currentPage = Some ''2'', pageSize = Some ''5''\<rparr>) [])
       = [Execute ''PRAGMA table_info("t")'' [],
          Execute ''SELECT COUNT(*) as total FROM "t" WHERE ("title" LIKE ? OR "body" LIKE ?)''
            [Str ''%a%'', Str ''%a%''],
          Execute ''SELECT * FROM "t" WHERE ("title" LIKE ? OR "body" LIKE ?) ORDER BY "title" ASC LIMIT 5 OFFSET 5''
            [Str ''%a%'', Str ''%a%'']]
   \<and> (\<exists>n gs.
         [Execute ''PRAGMA table_info("t")'' [],
          Execute ''SELECT COUNT(*) as total FROM "t" WHERE ("title" LIKE ? OR "body" LIKE ?)''
            [Str ''%a%'', Str ''%a%''],
          Execute ''SELECT * FROM "t" WHERE ("title" LIKE ? OR "body" LIKE ?) ORDER BY "title" ASC LIMIT 5 OFFSET 5''
            [Str ''%a%'', Str ''%a%'']]
         = replicate n (Execute (''PRAGMA table_info('' @ quote ''t'' @ '')'') [])
             @ [Execute (''SELECT COUNT(*) as total FROM '' @ quote ''t''
                  @ baseWhere (map (\<lambda>g. ''('' @ join '' OR '' (map (\<lambda>n. quote n @ '' LIKE ?'') (fst g)) @ '')'') gs))
                  (concat (map (\<lambda>g. map (\<lambda>n. Str (''%'' @ js_String integer_runtime (snd g) @ ''%'')) (fst g)) gs)),
                Execute (''SELECT * FROM '' @ quote ''t''
                  @ baseWhere (map (\<lambda>g. ''('' @ join '' OR '' (map (\<lambda>n. quote n @ '' LIKE ?'') (fst g)) @ '')'') gs)
                  @ orderClause [\<lparr>field = ''title'', order = Asc\<rparr>]
                  @ limitClause integer_runtime (Some \<lparr>currentPage = Some ''2'', pageSize = Some ''5''\<rparr>))
                  (concat (map (\<lambda>g. map (\<lambda>n. Str (''%'' @ js_String integer_runtime (snd g) @ ''%'')) (fst g)) gs))])\<close>
proof -
  note T = data_access_sql_text
    [where srv = demo_server and rt = integer_runtime and r = "''t''" and i = "Num ''4''"
       and log = "[]" and ids = "[Num ''1'', Undefined]" and vars = "[]"
       and fs = "[LogicalFilter ''q'' ''contains'' (Str ''a'')]"
       and ss = "[\<lparr>field = ''title'', order = Asc\<rparr>]"
       and pg = "Some \<lparr>currentPage = Some ''2'', pageSize = Some ''5''\<rparr>"
       and w = "[]" and p = "\<lparr>currentPage = Some ''2'', pageSize = Some ''5''\<rparr>"
       and d = "[]" and x = "[]"]
  let ?pragma = \<open>Execute ''PRAGMA table_info("t")'' []\<close>
  let ?count = \<open>Execute ''SELECT COUNT(*) as total FROM "t" WHERE ("title" LIKE ? OR "body" LIKE ?)''
            [Str ''%a%'', Str ''%a%'']\<close>
  let ?final = \<open>Execute ''SELECT * FROM "t" WHERE ("title" LIKE ? OR "body" LIKE ?) ORDER BY "title" ASC LIMIT 5 OFFSET 5''
            [Str ''%a%'', Str ''%a%'']\<close>
  have one: \<open>snd (getOne demo_server ''t'' (Num ''4'') [])
      = [Execute ''SELECT * FROM "t" WHERE id = ?'' [Num ''4'']]\<close>
    using T [THEN conjunct1] by (simp add: quote_def replace_dq_def)
  have many: \<open>snd (deleteMany demo_server ''t'' [Num ''1'', Undefined] [])
       = [Execute ''DELETE FROM "t" WHERE id IN (?, ?)'' [Num ''1'', Null]]\<close>
    using T [THEN conjunct2, THEN conjunct2, THEN conjunct1] by (simp add: quote_def replace_dq_def)
  have lst: \<open>snd (getList integer_runtime demo_server ''t'' [LogicalFilter ''q'' ''contains'' (Str ''a'')]
            [\<lparr>field = ''title'', order = Asc\<rparr>]
            (Some \<lparr>currentPage = Some ''2'', pageSize = Some ''5''\<rparr>) [])
       = [?pragma, ?count, ?final]\<close>
    by (simp add: demo_list_a)
  have pragma: \<open>Execute (''PRAGMA table_info('' @ quote ''t'' @ '')'') [] = ?pragma\<close>
    by (simp add: quote_def replace_dq_def)
  note L = T [THEN conjunct2, THEN conjunct2, THEN conjunct2, THEN conjunct2, THEN conjunct2,
      THEN conjunct1, unfolded lst append_Nil]
  from L obtain n gs where
    cases: \<open>[?pragma, ?count, ?final]
             = replicate n (Execute (''PRAGMA table_info('' @ quote ''t'' @ '')'') [])
          \<or> [?pragma, ?count, ?final]
             = replicate n (Execute (''PRAGMA table_info('' @ quote ''t'' @ '')'') [])
                 @ [Execute (''SELECT COUNT(*) as total FROM '' @ quote ''t''
                      @ baseWhere (map (\<lambda>g. ''('' @ join '' OR '' (map (\<lambda>n. quote n @ '' LIKE ?'') (fst g)) @ '')'') gs))
                      (concat (map (\<lambda>g. map (\<lambda>n. Str (''%'' @ js_String integer_runtime (snd g) @ ''%'')) (fst g)) gs))]
          \<or> [?pragma, ?count, ?final]
             = replicate n (Execute (''PRAGMA table_info('' @ quote ''t'' @ '')'') [])
                 @ [Execute (''SELECT COUNT(*) as total FROM '' @ quote ''t''
                      @ baseWhere (map (\<lambda>g. ''('' @ join '' OR '' (map (\<lambda>n. quote n @ '' LIKE ?'') (fst g)) @ '')'') gs))
                      (concat (map (\<lambda>g. map (\<lambda>n. Str (''%'' @ js_String integer_runtime (snd g) @ ''%'')) (fst g)) gs)),
                    Execute (''SELECT * FROM '' @ quote ''t''
                      @ baseWhere (map (\<lambda>g. ''('' @ join '' OR '' (map (\<lambda>n. quote n @ '' LIKE ?'') (fst g)) @ '')'') gs)
                      @ orderClause [\<lparr>field = ''title'', order = Asc\<rparr>]
                      @ limitClause integer_runtime (Some \<lparr>currentPage = Some ''2'', pageSize = Some ''5''\<rparr>))
                      (concat (map (\<lambda>g. map (\<lambda>n. Str (''%'' @ js_String integer_runtime (snd g) @ ''%'')) (fst g)) gs))]\<close>
    by blast
  have not_all_pragma: \<open>[?pragma, ?count, ?final] \<noteq> replicate n (Execute (''PRAGMA table_info('' @ quote ''t'' @ '')'') [])\<close>
  proof
    assume \<open>[?pragma, ?count, ?final] = replicate n (Execute (''PRAGMA table_info('' @ quote ''t'' @ '')'') [])\<close>
    then have \<open>?final \<in> set (replicate n (Execute (''PRAGMA table_info('' @ quote ''t'' @ '')'') []))\<close>
      by (metis insertCI list.simps(15))
    then show False by simp
  qed
  have not_count_last: \<open>[?pragma, ?count, ?final] \<noteq> pre @ [Execute (''SELECT COUNT(*) as total FROM '' @ x) ps]\<close>
    for pre x ps
  proof
    assume \<open>[?pragma, ?count, ?final] = pre @ [Execute (''SELECT COUNT(*) as total FROM '' @ x) ps]\<close>
    then have \<open>last [?pragma, ?count, ?final] = Execute (''SELECT COUNT(*) as total FROM '' @ x) ps\<close>
      by (metis last_snoc)
    then show False by simp
  qed
  from cases not_all_pragma not_count_last [of "replicate n (Execute (''PRAGMA table_info('' @ quote ''t'' @ '')'') [])"]
  have \<open>[?pragma, ?count, ?final]
             = replicate n (Execute (''PRAGMA table_info('' @ quote ''t'' @ '')'') [])
                 @ [Execute (''SELECT COUNT(*) as total FROM '' @ quote ''t''
                      @ baseWhere (map (\<lambda>g. ''('' @ join '' OR '' (map (\<lambda>n. quote n @ '' LIKE ?'') (fst g)) @ '')'') gs))
                      (concat (map (\<lambda>g. map (\<lambda>n. Str (''%'' @ js_String integer_runtime (snd g) @ ''%'')) (fst g)) gs)),
                    Execute (''SELECT * FROM '' @ quote ''t''
                      @ baseWhere (map (\<lambda>g. ''('' @ join '' OR '' (map (\<lambda>n. quote n @ '' LIKE ?'') (fst g)) @ '')'') gs)
                      @ orderClause [\<lparr>field = ''title'', order = Asc\<rparr>]
                      @ limitClause integer_runtime (Some \<lparr>currentPage = Some ''2'', pageSize = Some ''5''\<rparr>))
                      (concat (map (\<lambda>g. map (\<lambda>n. Str (''%'' @ js_String integer_runtime (snd g) @ ''%'')) (fst g)) gs))]\<close>
    by (simp only: append_assoc) blast
  then have ex: \<open>\<exists>n gs. [?pragma, ?count, ?final]
             = replicate n (Execute (''PRAGMA table_info('' @ quote ''t'' @ '')'') [])
                 @ [Execute (''SELECT COUNT(*) as total FROM '' @ quote ''t''
                      @ baseWhere (map (\<lambda>g. ''('' @ join '' OR '' (map (\<lambda>n. quote n @ '' LIKE ?'') (fst g)) @ '')'') gs))
                      (concat (map (\<lambda>g. map (\<lambda>n. Str (''%'' @ js_String integer_runtime (snd g) @ ''%'')) (fst g)) gs)),
                    Execute (''SELECT * FROM '' @ quote ''t''
                      @ baseWhere (map (\<lambda>g. ''('' @ join '' OR '' (map (\<lambda>n. quote n @ '' LIKE ?'') (fst g)) @ '')'') gs)
                      @ orderClause [\<lparr>field = ''title'', order = Asc\<rparr>]
                      @ limitClause integer_runtime (Some \<lparr>currentPage = Some ''2'', pageSize = Some ''5''\<rparr>))
                      (concat (map (\<lambda>g. map (\<lambda>n. Str (''%'' @ js_String integer_runtime (snd g) @ ''%'')) (fst g)) gs))]\<close>
    by blast
  from one many lst ex show ?thesis
    by (simp only: simp_thms)
qed

subsection \<open>The free-text filter\<close>






subsection \<open>The total of a list\<close>

lemma dec_nat_not_NaN: "dec_nat k \<noteq> ''NaN''"
proof
  assume eq: "dec_nat k = ''NaN''"
  have "last (dec_nat k) = digit (k mod 10)"
    by (subst dec_nat.simps) simp
  with eq have "digit (k mod 10) = CHR ''N''"
    by simp
  moreover have "k mod 10 < 10"
    by simp
  ultimately show False
    by (simp add: digit_def char_of_eq_iff take_bit_nat_eq_self)
qed

text \<open>The total read from a count row that holds a natural number under \<^verbatim>\<open>total\<close> and
  nothing else is that number; for zero it is the fallback of the chain.\<close>

lemma count_total_row: "count_total [Obj [(''total'', Num (dec_nat k))]] = Num (dec_nat k)"
proof (cases "dec_nat k = ''0''")
  case True
  then show ?thesis
    by (simp add: count_total_def js_or_def opt_prop_def first_def object_prototype_def)
next
  case False
  with dec_nat_not_NaN [of k] show ?thesis
    by (simp add: count_total_def js_or_def opt_prop_def first_def)
qed

lemma count_total_chain:
  "count_total cr
     = (if truthy (opt_prop (first cr) ''total'') then opt_prop (first cr) ''total''
        else if truthy (opt_prop (first cr) ''count'') then opt_prop (first cr) ''count''
        else if truthy (opt_prop (first cr) ''COUNT(*)'') then opt_prop (first cr) ''COUNT(*)''
        else Num ''0'')"
  by (simp add: count_total_def js_or_def)

text \<open>
  C4. Two list requests that differ only in the pagination, on the same remote state,
  return the same total when both succeed. The count query is sent before the main
  SELECT; it has the WHERE clause of the main SELECT, the same parameters, and neither
  ORDER BY nor LIMIT/OFFSET. The total is read from the first row of its reply: the
  first truthy one of the fields \<^verbatim>\<open>total\<close>, \<^verbatim>\<open>count\<close> and \<^verbatim>\<open>COUNT(*)\<close>, and zero when there is
  none. So when the remote end answers the count query with the row \<^verbatim>\<open>{total: k}\<close>, both
  totals are \<open>k\<close>; in particular when \<open>k\<close> is the number of rows of a table that satisfy
  the WHERE clause with its parameters, whatever reading \<open>sat\<close> of them the store has.
\<close>

theorem getList_total_ignores_pagination:
  assumes "getList rt srv resource fs ss p1 log = (Inr r1, log1)"
    and "getList rt srv resource fs ss p2 log = (Inr r2, log2)"
  shows "total r1 = total r2
       \<and> (\<exists>w ps l' cr.
             where_loop rt srv resource fs [] [] log = (Inr (w, ps), l')
           \<and> execQuery srv (''SELECT COUNT(*) as total FROM '' @ quote resource @ baseWhere w) ps l'
               = (Inr cr, l' @ [Execute (''SELECT COUNT(*) as total FROM '' @ quote resource @ baseWhere w)
                                  (map posted ps)])
           \<and> total r1
               = (if truthy (opt_prop (first cr) ''total'') then opt_prop (first cr) ''total''
                  else if truthy (opt_prop (first cr) ''count'') then opt_prop (first cr) ''count''
                  else if truthy (opt_prop (first cr) ''COUNT(*)'') then opt_prop (first cr) ''COUNT(*)''
                  else Num ''0'')
           \<and> log1 = l' @ [Execute (''SELECT COUNT(*) as total FROM '' @ quote resource @ baseWhere w)
                             (map posted ps),
                           Execute (''SELECT * FROM '' @ quote resource @ baseWhere w
                                      @ orderClause ss @ limitClause rt p1) (map posted ps)]
           \<and> log2 = l' @ [Execute (''SELECT COUNT(*) as total FROM '' @ quote resource @ baseWhere w)
                             (map posted ps),
                           Execute (''SELECT * FROM '' @ quote resource @ baseWhere w
                                      @ orderClause ss @ limitClause rt p2) (map posted ps)])
       \<and> (\<forall>w ps l' k.
             where_loop rt srv resource fs [] [] log = (Inr (w, ps), l')
           \<and> fst (execQuery srv (''SELECT COUNT(*) as total FROM '' @ quote resource @ baseWhere w) ps l')
               = Inr [Obj [(''total'', Num (dec_nat k))]]
           \<longrightarrow> total r1 = Num (dec_nat k) \<and> total r2 = Num (dec_nat k))
       \<and> (\<forall>w ps l' table sat.
             where_loop rt srv resource fs [] [] log = (Inr (w, ps), l')
           \<and> fst (execQuery srv (''SELECT COUNT(*) as total FROM '' @ quote resource @ baseWhere w) ps l')
               = Inr [Obj [(''total'',
                            Num (dec_nat (length (filter (sat (baseWhere w) (map posted ps)) table))))]]
           \<longrightarrow> total r1 = Num (dec_nat (length (filter (sat (baseWhere w) (map posted ps)) table)))
             \<and> total r2 = Num (dec_nat (length (filter (sat (baseWhere w) (map posted ps)) table))))"
proof -
  from getList_Inr [OF assms(1)] obtain w ps l' cr where
    a: "where_loop rt srv resource fs [] [] log = (Inr (w, ps), l')"
      "execQuery srv (countQuery resource w) ps l'
         = (Inr cr, l' @ [Execute (countQuery resource w) (map posted ps)])"
      "total r1 = count_total cr"
      "log1 = l' @ [Execute (countQuery resource w) (map posted ps),
                    Execute (finalQuery rt resource w ss p1) (map posted ps)]"
    by blast
  from getList_Inr [OF assms(2)] obtain w2 ps2 l2 cr2 where
    b: "where_loop rt srv resource fs [] [] log = (Inr (w2, ps2), l2)"
      "execQuery srv (countQuery resource w2) ps2 l2
         = (Inr cr2, l2 @ [Execute (countQuery resource w2) (map posted ps2)])"
      "total r2 = count_total cr2"
      "log2 = l2 @ [Execute (countQuery resource w2) (map posted ps2),
                    Execute (finalQuery rt resource w2 ss p2) (map posted ps2)]"
    by blast
  from a(1) b(1) have same: "w2 = w" "ps2 = ps" "l2 = l'" by simp_all
  with a(2) b(2) have cr: "cr2 = cr" by simp
  have cnt: "countQuery resource w = ''SELECT COUNT(*) as total FROM '' @ quote resource @ baseWhere w"
    by (simp add: countQuery_def)
  have fin: "finalQuery rt resource w ss pg
      = ''SELECT * FROM '' @ quote resource @ baseWhere w @ orderClause ss @ limitClause rt pg" for pg
    by (simp add: finalQuery_def)
  from a(3) b(3) cr have eq: "total r1 = total r2" by simp
  have descr: "\<exists>w ps l' cr.
             where_loop rt srv resource fs [] [] log = (Inr (w, ps), l')
           \<and> execQuery srv (''SELECT COUNT(*) as total FROM '' @ quote resource @ baseWhere w) ps l'
               = (Inr cr, l' @ [Execute (''SELECT COUNT(*) as total FROM '' @ quote resource @ baseWhere w)
                                  (map posted ps)])
           \<and> total r1
               = (if truthy (opt_prop (first cr) ''total'') then opt_prop (first cr) ''total''
                  else if truthy (opt_prop (first cr) ''count'') then opt_prop (first cr) ''count''
                  else if truthy (opt_prop (first cr) ''COUNT(*)'') then opt_prop (first cr) ''COUNT(*)''
                  else Num ''0'')
           \<and> log1 = l' @ [Execute (''SELECT COUNT(*) as total FROM '' @ quote resource @ baseWhere w)
                             (map posted ps),
                           Execute (''SELECT * FROM '' @ quote resource @ baseWhere w
                                      @ orderClause ss @ limitClause rt p1) (map posted ps)]
           \<and> log2 = l' @ [Execute (''SELECT COUNT(*) as total FROM '' @ quote resource @ baseWhere w)
                             (map posted ps),
                           Execute (''SELECT * FROM '' @ quote resource @ baseWhere w
                                      @ orderClause ss @ limitClause rt p2) (map posted ps)]"
    using a b(4) unfolding same cnt fin count_total_chain by blast
  have pinned: "total r1 = Num (dec_nat k) \<and> total r2 = Num (dec_nat k)"
    if "where_loop rt srv resource fs [] [] log = (Inr (w', ps'), l'')"
      and "fst (execQuery srv (''SELECT COUNT(*) as total FROM '' @ quote resource @ baseWhere w') ps' l'')
             = Inr [Obj [(''total'', Num (dec_nat k))]]"
    for w' ps' l'' k
  proof -
    from that(1) a(1) have "w' = w" "ps' = ps" "l'' = l'" by simp_all
    with that(2) a(2) have "cr = [Obj [(''total'', Num (dec_nat k))]]"
      by (simp add: cnt)
    with a(3) eq show ?thesis
      by (simp only: count_total_row simp_thms)
  qed
  have pin1: "\<forall>w ps l' k.
             where_loop rt srv resource fs [] [] log = (Inr (w, ps), l')
           \<and> fst (execQuery srv (''SELECT COUNT(*) as total FROM '' @ quote resource @ baseWhere w) ps l')
               = Inr [Obj [(''total'', Num (dec_nat k))]]
           \<longrightarrow> total r1 = Num (dec_nat k) \<and> total r2 = Num (dec_nat k)"
    using pinned by blast
  have pin2: "\<forall>w ps l' table sat.
             where_loop rt srv resource fs [] [] log = (Inr (w, ps), l')
           \<and> fst (execQuery srv (''SELECT COUNT(*) as total FROM '' @ quote resource @ baseWhere w) ps l')
               = Inr [Obj [(''total'',
                            Num (dec_nat (length (filter (sat (baseWhere w) (map posted ps)) table))))]]
           \<longrightarrow> total r1 = Num (dec_nat (length (filter (sat (baseWhere w) (map posted ps)) table)))
             \<and> total r2 = Num (dec_nat (length (filter (sat (baseWhere w) (map posted ps)) table)))"
    using pinned by blast
  show ?thesis
    using eq descr pin1 pin2 by (intro conjI) assumption+
qed

theorem getList_total_ignores_pagination_witness:
  \<open>getList integer_runtime demo_server ''t'' [] [] (Some \<lparr>currentPage = Some ''2'', pageSize = Some ''5''\<rparr>) []
     = (Inr \<lparr>data = [Obj [(''id'', Num ''6'')]], total = Num ''3''\<rparr>,
        [Execute ''SELECT COUNT(*) as total FROM "t"'' [],
         Execute ''SELECT * FROM "t" ORDER BY id DESC LIMIT 5 OFFSET 5'' []])
   \<and> getList integer_runtime demo_server ''t'' [] [] (Some \<lparr>currentPage = Some ''3'', pageSize = Some ''20''\<rparr>) []
     = (Inr \<lparr>data = [], total = Num ''3''\<rparr>,
        [Execute ''SELECT COUNT(*) as total FROM "t"'' [],
         Execute ''SELECT * FROM "t" ORDER BY id DESC LIMIT 20 OFFSET 40'' []])
   \<and> fst (execQuery demo_server ''SELECT COUNT(*) as total FROM "t"'' [] [])
     = Inr [Obj [(''total'', Num ''3'')]]
   \<and> total \<lparr>data = [Obj [(''id'', Num ''6'')]], total = Num ''3''\<rparr> = Num (dec_nat 3)
   \<and> total \<lparr>data = [], total = Num ''3''\<rparr> = Num (dec_nat 3)\<close>
proof -
  have three: "dec_nat 3 = ''3''"
    by (simp add: dec_nat.simps digit_def char_of_eq_iff)
  have loop: "where_loop integer_runtime demo_server ''t'' [] [] [] [] = (Inr ([], []), [])"
    by simp
  have count: \<open>fst (execQuery demo_server ''SELECT COUNT(*) as total FROM "t"'' [] [])
      = Inr [Obj [(''total'', Num ''3'')]]\<close>
    by (simp add: exec_eval demo_server_def object_prototype_def)
  have reply: "fst (execQuery demo_server (''SELECT COUNT(*) as total FROM '' @ quote ''t'' @ baseWhere []) [] [])
      = Inr [Obj [(''total'', Num (dec_nat 3))]]"
    using count by (simp add: three quote_def replace_dq_def baseWhere_def)
  note T = getList_total_ignores_pagination [OF demo_list_page demo_list_page2,
      THEN conjunct2, THEN conjunct2, THEN conjunct1, THEN spec, THEN spec, THEN spec, THEN spec,
      THEN mp, OF conjI, OF loop reply]
  from T count show ?thesis
    by (simp only: demo_list_page demo_list_page2 simp_thms)
qed


end
